theory Spec2Isabelle
  imports Complex_Main "HOL-Library.Word" "HOL-Library.Log_Nat"
begin

section \<open>Numbers\<close>

text \<open>
  A C++ \<open>float\<close> or \<open>double\<close> value of \<open>camera_display.cpp\<close> is either finite, and then
  the real number it stands for, or not finite (NaN, +Inf, -Inf), and then the single
  value \<open>NonFin\<close>. The sign of a zero is not kept.

  The aspect-ratio block and the translation block of \<open>updateCamera\<close> are computed with
  the rounding of IEEE 754 (subsection Rounding below: binary32 for \<open>float\<close>, binary64
  for \<open>double\<close>, round to nearest even, overflow to infinity, gradual underflow, each
  operation rounded on its own as on a machine that evaluates \<open>float\<close> expressions in
  \<open>float\<close>). The operators of this first subsection are exact; they serve the
  quaternion and vector operators of the rendering library, the entries of the
  projection matrix, the corners of the screen rectangles, and the multiplication by
  \<open>-1\<close>, which is exact on a machine too. The conversion of an image or panel size to
  \<open>float\<close> is taken as exact, which it is below \<open>2^24\<close>.
\<close>

datatype flt = Fin real | NonFin

fun is_fin :: "flt \<Rightarrow> bool" where
  "is_fin (Fin a) = True"
| "is_fin NonFin = False"

fun fadd :: "flt \<Rightarrow> flt \<Rightarrow> flt" where
  "fadd (Fin a) (Fin b) = Fin (a + b)"
| "fadd _ _ = NonFin"

fun fsub :: "flt \<Rightarrow> flt \<Rightarrow> flt" where
  "fsub (Fin a) (Fin b) = Fin (a - b)"
| "fsub _ _ = NonFin"

fun fmul :: "flt \<Rightarrow> flt \<Rightarrow> flt" where
  "fmul (Fin a) (Fin b) = Fin (a * b)"
| "fmul _ _ = NonFin"

fun fdiv :: "flt \<Rightarrow> flt \<Rightarrow> flt" where
  "fdiv (Fin a) (Fin b) = (if b = 0 then NonFin else Fin (a / b))"
| "fdiv _ _ = NonFin"

fun fneg :: "flt \<Rightarrow> flt" where
  "fneg (Fin a) = Fin (- a)"
| "fneg NonFin = NonFin"

text \<open>
  Comparisons with zero: \<open>x == 0\<close> is false and \<open>x != 0\<close> is true for every
  non-finite \<open>x\<close>, as in IEEE arithmetic.
\<close>

fun feq :: "flt \<Rightarrow> flt \<Rightarrow> bool" where
  "feq (Fin a) (Fin b) = (a = b)"
| "feq _ _ = False"

fun fne :: "flt \<Rightarrow> flt \<Rightarrow> bool" where
  "fne (Fin a) (Fin b) = (a \<noteq> b)"
| "fne _ _ = True"

subsection \<open>Rounding\<close>

text \<open>
  \<open>pow2 e\<close> is \<open>2^e\<close> for an integer \<open>e\<close>; \<open>ilog2 x\<close> is the exponent of a positive \<open>x\<close>,
  the integer \<open>e\<close> with \<open>2^e \<le> x < 2^(e+1)\<close>, computed from the bit length of an
  integer; \<open>round_even\<close> rounds to the nearest integer, a tie to the even one.
\<close>

definition pow2 :: "int \<Rightarrow> real" where
  "pow2 e = (if 0 \<le> e then 2 ^ nat e else 1 / 2 ^ nat (- e))"

definition ilog2 :: "real \<Rightarrow> int" where
  "ilog2 x = (if 1 \<le> x then bitlen \<lfloor>x\<rfloor> - 1 else - bitlen (\<lceil>1 / x\<rceil> - 1))"

definition round_even :: "real \<Rightarrow> int" where
  "round_even x =
     (let f = \<lfloor>x\<rfloor>;
          d = x - of_int f
      in if d < 1 / 2 then f else if 1 / 2 < d then f + 1 else if even f then f else f + 1)"

text \<open>
  A value of IEEE arithmetic with the two infinities and NaN kept apart, as the
  comparison and the division of the aspect-ratio block tell them apart.
\<close>

datatype ieee = Num real | PInf | NInf | NaN

text \<open>
  \<open>fl_round p emin emax x\<close> rounds the real \<open>x\<close> to the binary format with \<open>p\<close>
  significant bits and exponents from \<open>emin\<close> to \<open>emax\<close>: to the nearest multiple of
  \<open>2^(e - p + 1)\<close>, where \<open>e\<close> is the exponent of \<open>x\<close> or \<open>emin\<close> if that is larger
  (subnormal numbers), a tie to the even multiple; a result of magnitude \<open>2^(emax+1)\<close> or
  more is the infinity of the sign of \<open>x\<close>.
\<close>

definition fl_round :: "nat \<Rightarrow> int \<Rightarrow> int \<Rightarrow> real \<Rightarrow> ieee" where
  "fl_round p emin emax x =
     (if x = 0 then Num 0
      else
        let e = max (ilog2 \<bar>x\<bar>) emin;
            q = e - int p + 1;
            r = of_int (round_even (x / pow2 q)) * pow2 q
        in if pow2 (emax + 1) \<le> \<bar>r\<bar> then (if 0 < x then PInf else NInf) else Num r)"

definition r32 :: "real \<Rightarrow> ieee" where
  "r32 = fl_round 24 (- 126) 127"

definition r64 :: "real \<Rightarrow> ieee" where
  "r64 = fl_round 53 (- 1022) 1023"

text \<open>
  Division, multiplication and \<open>>\<close> of IEEE arithmetic, with the rounding of the result's
  format as first argument. A zero divisor is taken as \<open>+0\<close>. In \<open>updateCamera\<close> the only
  zero divisors are a focal length of zero, for which the call is rejected whatever the
  zoom factors are (lemma \<open>zero_focal_rejected\<close> below), and an image aspect that
  underflowed to zero, where the quotient is an infinity of either sign and the zoom
  factor made of it is not finite.
\<close>

fun idiv :: "(real \<Rightarrow> ieee) \<Rightarrow> ieee \<Rightarrow> ieee \<Rightarrow> ieee" where
  "idiv rnd (Num a) (Num b) =
     (if b = 0 then (if a = 0 then NaN else if 0 < a then PInf else NInf) else rnd (a / b))"
| "idiv rnd (Num a) PInf = Num 0"
| "idiv rnd (Num a) NInf = Num 0"
| "idiv rnd PInf (Num b) = (if 0 \<le> b then PInf else NInf)"
| "idiv rnd NInf (Num b) = (if 0 \<le> b then NInf else PInf)"
| "idiv rnd _ _ = NaN"

fun imul :: "(real \<Rightarrow> ieee) \<Rightarrow> ieee \<Rightarrow> ieee \<Rightarrow> ieee" where
  "imul rnd (Num a) (Num b) = rnd (a * b)"
| "imul rnd (Num a) PInf = (if a = 0 then NaN else if 0 < a then PInf else NInf)"
| "imul rnd (Num a) NInf = (if a = 0 then NaN else if 0 < a then NInf else PInf)"
| "imul rnd PInf (Num b) = (if b = 0 then NaN else if 0 < b then PInf else NInf)"
| "imul rnd NInf (Num b) = (if b = 0 then NaN else if 0 < b then NInf else PInf)"
| "imul rnd PInf PInf = PInf"
| "imul rnd PInf NInf = NInf"
| "imul rnd NInf PInf = NInf"
| "imul rnd NInf NInf = PInf"
| "imul rnd _ _ = NaN"

fun igt :: "ieee \<Rightarrow> ieee \<Rightarrow> bool" where
  "igt (Num a) (Num b) = (b < a)"
| "igt (Num a) NInf = True"
| "igt PInf (Num b) = True"
| "igt PInf NInf = True"
| "igt _ _ = False"

text \<open>The conversion of a \<open>double\<close> to \<open>float\<close>.\<close>

fun to_float :: "ieee \<Rightarrow> ieee" where
  "to_float (Num a) = r32 a"
| "to_float PInf = PInf"
| "to_float NInf = NInf"
| "to_float NaN = NaN"

text \<open>
  Between the two types: a non-finite \<open>flt\<close> is read as NaN (no non-finite value
  enters the aspect-ratio block: its arguments are sizes and validated entries of \<open>P\<close>).
\<close>

fun to_flt :: "ieee \<Rightarrow> flt" where
  "to_flt (Num a) = Fin a"
| "to_flt PInf = NonFin"
| "to_flt NInf = NonFin"
| "to_flt NaN = NonFin"

fun of_flt :: "flt \<Rightarrow> ieee" where
  "of_flt (Fin a) = Num a"
| "of_flt NonFin = NaN"

text \<open>
  The rounded operators of the translation block, on \<open>flt\<close>: a sum or a product with a
  non-finite operand is not finite, and so is a quotient by zero. The dividend and the
  divisor there are validated entries of \<open>P\<close>, so no quotient by a non-finite value
  arises.
\<close>

fun fdiv64 :: "flt \<Rightarrow> flt \<Rightarrow> flt" where
  "fdiv64 (Fin a) (Fin b) = (if b = 0 then NonFin else to_flt (r64 (a / b)))"
| "fdiv64 _ _ = NonFin"

fun fmul32 :: "flt \<Rightarrow> flt \<Rightarrow> flt" where
  "fmul32 (Fin a) (Fin b) = to_flt (r32 (a * b))"
| "fmul32 _ _ = NonFin"

fun fadd32 :: "flt \<Rightarrow> flt \<Rightarrow> flt" where
  "fadd32 (Fin a) (Fin b) = to_flt (r32 (a + b))"
| "fadd32 _ _ = NonFin"

fun to_float32 :: "flt \<Rightarrow> flt" where
  "to_float32 (Fin a) = to_flt (r32 a)"
| "to_float32 NonFin = NonFin"

section \<open>Vectors, quaternions and matrices of the rendering library\<close>

text \<open>
  \<open>Ogre::Vector3\<close>, \<open>Ogre::Quaternion\<close> and \<open>Ogre::Matrix4\<close> belong to the rendering
  library, not to this repository. The operators that \<open>updateCamera\<close> applies to them
  are written out here as the library defines them: component-wise sum and scaling,
  the cross product, the Hamilton product of quaternions (components in the order
  \<open>w x y z\<close>), the rotation of a vector by a quaternion, and the quaternion of an angle
  and an axis.
\<close>

datatype vector3 = Vector3 flt flt flt

definition UNIT_X :: vector3 where
  "UNIT_X = Vector3 (Fin 1) (Fin 0) (Fin 0)"

definition UNIT_Y :: vector3 where
  "UNIT_Y = Vector3 (Fin 0) (Fin 1) (Fin 0)"

definition UNIT_Z :: vector3 where
  "UNIT_Z = Vector3 (Fin 0) (Fin 0) (Fin 1)"

fun vadd :: "vector3 \<Rightarrow> vector3 \<Rightarrow> vector3" where
  "vadd (Vector3 a b c) (Vector3 d e f) = Vector3 (fadd a d) (fadd b e) (fadd c f)"

fun vscale :: "vector3 \<Rightarrow> flt \<Rightarrow> vector3" where
  "vscale (Vector3 a b c) s = Vector3 (fmul a s) (fmul b s) (fmul c s)"

text \<open>The same sum and scaling with each component rounded to \<open>float\<close>.\<close>

fun vadd32 :: "vector3 \<Rightarrow> vector3 \<Rightarrow> vector3" where
  "vadd32 (Vector3 a b c) (Vector3 d e f) = Vector3 (fadd32 a d) (fadd32 b e) (fadd32 c f)"

fun vscale32 :: "vector3 \<Rightarrow> flt \<Rightarrow> vector3" where
  "vscale32 (Vector3 a b c) s = Vector3 (fmul32 a s) (fmul32 b s) (fmul32 c s)"

fun crossProduct :: "vector3 \<Rightarrow> vector3 \<Rightarrow> vector3" where
  "crossProduct (Vector3 x y z) (Vector3 rx ry rz) =
     Vector3 (fsub (fmul y rz) (fmul z ry))
             (fsub (fmul z rx) (fmul x rz))
             (fsub (fmul x ry) (fmul y rx))"

datatype quaternion = Quaternion flt flt flt flt

definition IDENTITY :: quaternion where
  "IDENTITY = Quaternion (Fin 1) (Fin 0) (Fin 0) (Fin 0)"

fun qmul :: "quaternion \<Rightarrow> quaternion \<Rightarrow> quaternion" where
  "qmul (Quaternion w x y z) (Quaternion rw rx ry rz) =
     Quaternion
       (fsub (fsub (fsub (fmul w rw) (fmul x rx)) (fmul y ry)) (fmul z rz))
       (fsub (fadd (fadd (fmul w rx) (fmul x rw)) (fmul y rz)) (fmul z ry))
       (fsub (fadd (fadd (fmul w ry) (fmul y rw)) (fmul z rx)) (fmul x rz))
       (fsub (fadd (fadd (fmul w rz) (fmul z rw)) (fmul x ry)) (fmul y rx))"

fun qrot :: "quaternion \<Rightarrow> vector3 \<Rightarrow> vector3" where
  "qrot (Quaternion w x y z) v =
     (let qvec = Vector3 x y z;
          uv = crossProduct qvec v;
          uuv = crossProduct qvec uv;
          uv' = vscale uv (fmul (Fin 2) w);
          uuv' = vscale uuv (Fin 2)
      in vadd (vadd v uv') uuv')"

text \<open>\<open>Ogre::Degree(d)\<close> read as radians.\<close>

definition Degree :: "real \<Rightarrow> real" where
  "Degree d = d * pi / 180"

fun FromAngleAxis :: "real \<Rightarrow> vector3 \<Rightarrow> quaternion" where
  "FromAngleAxis angle (Vector3 ax ay az) =
     (let fHalfAngle = angle / 2;
          fSin = Fin (sin fHalfAngle)
      in Quaternion (Fin (cos fHalfAngle)) (fmul fSin ax) (fmul fSin ay) (fmul fSin az))"

fun validateFloats_vec :: "vector3 \<Rightarrow> bool" where
  "validateFloats_vec (Vector3 a b c) = (is_fin a \<and> is_fin b \<and> is_fin c)"

type_synonym matrix4 = "nat \<times> nat \<Rightarrow> flt"

definition ZERO :: matrix4 where
  "ZERO = (\<lambda>ij. Fin 0)"

section \<open>Messages\<close>

record ros_time =
  sec :: "32 word"
  nsec :: "32 word"

record Header =
  seq :: "32 word"
  stamp :: ros_time
  frame_id :: string

text \<open>
  \<open>sensor_msgs::Image\<close>. The pixel bytes are what the rendering library copies; the
  model keeps their number only.
\<close>

record Image =
  header :: Header
  img_height :: "32 word"
  img_width :: "32 word"
  encoding :: string
  step :: "32 word"
  data_size :: nat

text \<open>
  \<open>sensor_msgs::CameraInfo\<close>: \<open>width\<close> and \<open>height\<close> are unsigned 32-bit counts (no
  arithmetic is done on them before the conversion to \<open>float\<close>), \<open>D\<close> is a vector, and
  \<open>K\<close>, \<open>R\<close>, \<open>P\<close> are fixed arrays of 9, 9 and 12 doubles, indexed from 0.
\<close>

record CameraInfo =
  width :: nat
  height :: nat
  D :: "flt list"
  K :: "nat \<Rightarrow> flt"
  R :: "nat \<Rightarrow> flt"
  P :: "nat \<Rightarrow> flt"

definition validateFloats :: "CameraInfo \<Rightarrow> bool" where
  "validateFloats msg =
     (let valid = True;
          valid = (valid \<and> list_all is_fin (D msg));
          valid = (valid \<and> list_all is_fin (map (K msg) [0..<9]));
          valid = (valid \<and> list_all is_fin (map (R msg) [0..<9]));
          valid = (valid \<and> list_all is_fin (map (P msg) [0..<12]))
      in valid)"

section \<open>The video publisher\<close>

text \<open>
  \<open>video_export::VideoPublisher\<close>. \<open>pub_topic\<close> is what \<open>pub_.getTopic()\<close> returns (empty
  until \<open>advertise\<close>, and again after \<open>shutdown\<close>), \<open>image_id\<close> the 32-bit counter, and
  \<open>sent\<close> the messages handed to \<open>pub_.publish\<close>, oldest first.
\<close>

record VideoPublisher =
  pub_topic :: string
  image_id :: "32 word"
  sent :: "Image list"

definition shutdown :: "VideoPublisher \<Rightarrow> VideoPublisher" where
  "shutdown vp = (if pub_topic vp \<noteq> [] then vp\<lparr>pub_topic := []\<rparr> else vp)"

definition advertise :: "string \<Rightarrow> VideoPublisher \<Rightarrow> VideoPublisher" where
  "advertise topic_name vp = vp\<lparr>pub_topic := topic_name\<rparr>"

text \<open>
  \<open>Ogre::RenderWindow\<close> as \<open>publishFrame\<close> meets it. The host can resize the window at
  any moment, so the window is given at the two moments at which \<open>publishFrame\<close> uses
  it: \<open>rw_width\<close>, \<open>rw_height\<close> and \<open>elem_bytes\<close> are what \<open>getWidth()\<close>, \<open>getHeight()\<close>
  and \<open>PixelUtil::getNumElemBytes(suggestPixelFormat())\<close> return at the size query, and
  \<open>copy_width\<close>, \<open>copy_height\<close> are the window's width and height when
  \<open>copyContentsToMemory\<close> runs, the same values unless a resize came in between.
\<close>

record RenderWindow =
  rw_width :: "32 word"
  rw_height :: "32 word"
  elem_bytes :: "32 word"
  copy_width :: "32 word"
  copy_height :: "32 word"

text \<open>
  What one capture does with memory: the number of bytes requested from the allocator,
  the \<open>Ogre::PixelBox\<close> (width, height, bytes per element) handed to
  \<open>copyContentsToMemory\<close>, and the size of the window that this call reads back.
\<close>

record Capture =
  buffer_bytes :: nat
  box_width :: "32 word"
  box_height :: "32 word"
  box_elem_bytes :: "32 word"
  window_width :: "32 word"
  window_height :: "32 word"

text \<open>
  \<open>uint datasize = width * height * pixelsize\<close>: a product of 32-bit values, kept
  to 32 bits.
\<close>

definition datasize_of :: "32 word \<Rightarrow> 32 word \<Rightarrow> 32 word \<Rightarrow> 32 word" where
  "datasize_of w h pixelsize = w * h * pixelsize"

text \<open>
  \<open>OGRE_ALLOC_T(uchar, datasize * 1.05, ...)\<close>: the count is the double
  \<open>datasize * 1.05\<close>, cut to an integer number of one-byte elements.
\<close>

definition alloc_bytes :: "32 word \<Rightarrow> nat" where
  "alloc_bytes datasize = nat \<lfloor>real (unat datasize) * 1.05\<rfloor>"

definition RGB8 :: string where
  "RGB8 = ''rgb8''"

definition publishFrame ::
  "ros_time \<Rightarrow> RenderWindow \<Rightarrow> VideoPublisher \<Rightarrow> VideoPublisher \<times> Capture option" where
  "publishFrame now render_window vp =
     (if pub_topic vp = [] then (vp, None)
      else
        let h = rw_height render_window;
            w = rw_width render_window;
            pixelsize = elem_bytes render_window;
            datasize = datasize_of w h pixelsize;
            cap = \<lparr>buffer_bytes = alloc_bytes datasize,
                   box_width = w, box_height = h, box_elem_bytes = pixelsize,
                   window_width = copy_width render_window,
                   window_height = copy_height render_window\<rparr>;
            msg = \<lparr>header = \<lparr>seq = image_id vp, stamp = now, frame_id = []\<rparr>,
                     img_height = h, img_width = w, encoding = RGB8,
                     step = pixelsize * w, data_size = unat datasize\<rparr>
        in (vp\<lparr>image_id := image_id vp + 1, sent := sent vp @ [msg]\<rparr>, Some cap))"

section \<open>The display\<close>

datatype StatusLevel = Ok | Warn | Error

text \<open>
  A status text is a string, except the one that \<open>updateCamera\<close> formats from the
  synchronisation time: "Time-syncing active and no image at timestamp <t>.".
\<close>

datatype status_text = Text string | NoImageAtTimestamp ros_time

datatype SyncMode = SyncOff | SyncExact | SyncApprox

text \<open>
  What \<open>updateCamera\<close> asks of \<open>context_->getFrameManager()\<close>: the synchronisation
  time \<open>getTime()\<close>, the mode \<open>getSyncMode()\<close>, and \<open>getTransform(frame, time, position,
  orientation)\<close>, whose result is its boolean together with the values it leaves in
  the two output parameters. \<open>now\<close> is \<open>ros::Time::now()\<close>.
\<close>

record Context =
  getTime :: ros_time
  getSyncMode :: SyncMode
  getTransform :: "string \<Rightarrow> ros_time \<Rightarrow> bool \<times> vector3 \<times> quaternion"
  now :: ros_time

type_synonym corners = "flt \<times> flt \<times> flt \<times> flt"

text \<open>
  The members of \<open>rviz::CameraPub\<close> and of the objects it owns that the modelled
  functions read or write: the display's enabled flag and properties, the latest
  CameraInfo and the texture's latest image and size, the two flags of \<open>update\<close>, the
  render panel's size, window and camera, the visibility of the two scene nodes, the
  corners of the two screen rectangles, the status entries, and the publisher.
\<close>

record CameraPub =
  isEnabled :: bool
  topic_property :: string
  image_position_property :: string
  current_caminfo :: "CameraInfo option"
  texture_image :: "Image option"
  texture_width :: nat
  texture_height :: nat
  force_render :: bool
  caminfo_ok :: bool
  panel_width :: int
  panel_height :: int
  render_window :: RenderWindow
  camera_position :: vector3
  camera_orientation :: quaternion
  camera_custom_projection :: bool
  camera_projection :: matrix4
  bg_visible :: bool
  fg_visible :: bool
  bg_corners :: corners
  fg_corners :: corners
  status :: "string \<rightharpoonup> StatusLevel \<times> status_text"
  video_publisher :: VideoPublisher

definition BACKGROUND :: string where
  "BACKGROUND = ''background''"

definition OVERLAY :: string where
  "OVERLAY = ''overlay''"

definition BOTH :: string where
  "BOTH = ''background and overlay''"

definition setStatus :: "StatusLevel \<Rightarrow> string \<Rightarrow> status_text \<Rightarrow> CameraPub \<Rightarrow> CameraPub" where
  "setStatus level name message d = d\<lparr>status := (status d)(name \<mapsto> (level, message))\<rparr>"

subsection \<open>Render-pass listeners\<close>

text \<open>
  The two listeners that the render window calls around each of its updates. The
  pre-listener's \<open>visibility_property_->update()\<close> sets view flags on the other
  displays and touches no modelled member.
\<close>

definition preRenderTargetUpdate :: "CameraPub \<Rightarrow> CameraPub" where
  "preRenderTargetUpdate d =
     (let image_position = image_position_property d;
          d1 = d\<lparr>bg_visible :=
                   (caminfo_ok d \<and> (image_position = BACKGROUND \<or> image_position = BOTH))\<rparr>;
          d2 = d1\<lparr>fg_visible :=
                    (caminfo_ok d1 \<and> (image_position = OVERLAY \<or> image_position = BOTH))\<rparr>
      in d2)"

definition postRenderTargetUpdate :: "Context \<Rightarrow> CameraPub \<Rightarrow> CameraPub" where
  "postRenderTargetUpdate c d =
     (let d1 = d\<lparr>bg_visible := False\<rparr>;
          d2 = d1\<lparr>fg_visible := False\<rparr>
      in d2\<lparr>video_publisher :=
               fst (publishFrame (now c) (render_window d2) (video_publisher d2))\<rparr>)"

subsection \<open>Subscription\<close>

text \<open>
  \<open>subscribe\<close>. The base class's \<open>enableTFFilter\<close> and \<open>subscribe\<close> touch no modelled
  member. \<open>caminfo_error\<close> is \<open>Some what\<close> when \<open>caminfo_sub_.subscribe\<close> throws a
  \<open>ros::Exception\<close> with that text.
\<close>

definition subscribe :: "string option \<Rightarrow> CameraPub \<Rightarrow> CameraPub" where
  "subscribe caminfo_error d =
     (if (\<not> isEnabled d) \<or> topic_property d = [] then d
      else
        let d1 = (case caminfo_error of
                    None \<Rightarrow> setStatus Ok ''Camera Info'' (Text ''OK'') d
                  | Some what \<Rightarrow>
                      setStatus Error ''Camera Info'' (Text (''Error subscribing: '' @ what)) d)
        in d1\<lparr>video_publisher := advertise ''rviz_out'' (video_publisher d1)\<rparr>)"

subsection \<open>Resolving the camera\<close>

text \<open>
  The five places where \<open>updateCamera\<close> returns false, in the order of the source:
  no CameraInfo or no image yet; a NaN or infinity in \<open>D\<close>, \<open>K\<close>, \<open>R\<close> or \<open>P\<close>; exact time
  mode and a different image stamp; a width or height that is still 0 after the
  fallback to the texture; a computed position that is not finite.
\<close>

datatype skip = NoInput | InvalidFloats | TimeMismatch | Malformed | InvalidPosition

text \<open>
  The aspect-ratio block. \<open>img_aspect\<close> is computed in \<open>double\<close> (the focal lengths are
  doubles) and converted to \<open>float\<close>; \<open>win_aspect\<close> and the two products are computed in
  \<open>float\<close>.
\<close>

definition img_aspect_of :: "flt \<Rightarrow> flt \<Rightarrow> flt \<Rightarrow> flt \<Rightarrow> ieee" where
  "img_aspect_of img_w img_h fx fy =
     to_float (idiv r64 (idiv r64 (of_flt img_w) (of_flt fx)) (idiv r64 (of_flt img_h) (of_flt fy)))"

definition win_aspect_of :: "flt \<Rightarrow> flt \<Rightarrow> ieee" where
  "win_aspect_of win_width win_height = idiv r32 (of_flt win_width) (of_flt win_height)"

definition zoom_factors :: "flt \<Rightarrow> flt \<Rightarrow> flt \<Rightarrow> flt \<Rightarrow> flt \<Rightarrow> flt \<Rightarrow> flt \<times> flt" where
  "zoom_factors img_w img_h fx fy win_width win_height =
     (let zoom_x = Num 1;
          zoom_y = zoom_x
      in if fne win_width (Fin 0) \<and> fne win_height (Fin 0) then
           let img_aspect = img_aspect_of img_w img_h fx fy;
               win_aspect = win_aspect_of win_width win_height
           in if igt img_aspect win_aspect
              then (to_flt zoom_x, to_flt (imul r32 (idiv r32 zoom_y img_aspect) win_aspect))
              else (to_flt (imul r32 (idiv r32 zoom_x win_aspect) img_aspect), to_flt zoom_y)
         else (to_flt zoom_x, to_flt zoom_y))"

text \<open>
  The translation block: the position after the two baseline offsets. \<open>tx\<close> and \<open>ty\<close>
  are doubles; the scaling takes them as \<open>float\<close>, and the scaling and the sum round
  each component to \<open>float\<close>.
\<close>

definition baseline_position :: "CameraInfo \<Rightarrow> vector3 \<Rightarrow> quaternion \<Rightarrow> vector3" where
  "baseline_position info position orientation =
     (let fx = P info 0;
          fy = P info 5;
          tx = fmul (Fin (- 1)) (fdiv64 (P info 3) fx);
          right = qrot orientation UNIT_X;
          position1 = vadd32 position (vscale32 right (to_float32 tx));
          ty = fmul (Fin (- 1)) (fdiv64 (P info 7) fy);
          down = qrot orientation UNIT_Y
      in vadd32 position1 (vscale32 down (to_float32 ty)))"

text \<open>The projection block: \<open>proj_matrix\<close> as handed to \<open>setCustomProjectionMatrix\<close>.\<close>

definition projection_matrix :: "CameraInfo \<Rightarrow> flt \<Rightarrow> flt \<Rightarrow> flt \<Rightarrow> flt \<Rightarrow> matrix4" where
  "projection_matrix info img_w img_h zoom_x zoom_y =
     (let fx = P info 0;
          fy = P info 5;
          cx = P info 2;
          cy = P info 6;
          far_plane = Fin 100;
          near_plane = Fin 0.01
      in ZERO
          ((0, 0) := fmul (fdiv (fmul (Fin 2) fx) img_w) zoom_x,
           (1, 1) := fmul (fdiv (fmul (Fin 2) fy) img_h) zoom_y,
           (0, 2) := fmul (fmul (Fin 2) (fsub (Fin 0.5) (fdiv cx img_w))) zoom_x,
           (1, 2) := fmul (fmul (Fin 2) (fsub (fdiv cy img_h) (Fin 0.5))) zoom_y,
           (2, 2) := fdiv (fneg (fadd far_plane near_plane)) (fsub far_plane near_plane),
           (2, 3) := fdiv (fmul (fmul (Fin (- 2)) far_plane) near_plane)
                          (fsub far_plane near_plane),
           (3, 2) := Fin (- 1)))"

definition screen_corners :: "flt \<Rightarrow> flt \<Rightarrow> corners" where
  "screen_corners zoom_x zoom_y =
     (fmul (Fin (- 1)) zoom_x, fmul (Fin 1) zoom_y, fmul (Fin 1) zoom_x, fmul (Fin (- 1)) zoom_y)"

text \<open>
  \<open>updateCamera\<close>. The result is \<open>Inr ()\<close> where the source returns true and \<open>Inl\<close> of the
  place where it returns false. The boolean of \<open>getTransform\<close> is not looked at, as in
  the source.
\<close>

definition updateCamera :: "Context \<Rightarrow> CameraPub \<Rightarrow> (skip + unit) \<times> CameraPub" where
  "updateCamera c d =
     (case (current_caminfo d, texture_image d) of
        (Some info, Some img) \<Rightarrow>
          if \<not> validateFloats info then
            (Inl InvalidFloats,
             setStatus Error ''Camera Info''
               (Text ''Contains invalid floating point values (nans or infs)'') d)
          else
            let rviz_time = getTime c
            in if getSyncMode c = SyncExact \<and> rviz_time \<noteq> stamp (header img) then
                 (Inl TimeMismatch, setStatus Warn ''Time'' (NoImageAtTimestamp rviz_time) d)
               else
                 let (found, position, orientation0) =
                       getTransform c (frame_id (header img)) (stamp (header img));
                     orientation = qmul orientation0 (FromAngleAxis (Degree 180) UNIT_X);
                     img_w0 = Fin (real (width info));
                     img_h0 = Fin (real (height info));
                     img_w = (if feq img_w0 (Fin 0) then Fin (real (texture_width d)) else img_w0);
                     img_h = (if feq img_h0 (Fin 0) then Fin (real (texture_height d)) else img_h0)
                 in if feq img_h (Fin 0) \<or> feq img_w (Fin 0) then
                      (Inl Malformed,
                       setStatus Error ''Camera Info''
                         (Text ''Could not determine width/height of image due to malformed CameraInfo (either width or height is 0)'') d)
                    else
                      let fx = P info 0;
                          fy = P info 5;
                          win_width = Fin (real_of_int (panel_width d));
                          win_height = Fin (real_of_int (panel_height d));
                          (zoom_x, zoom_y) = zoom_factors img_w img_h fx fy win_width win_height;
                          position' = baseline_position info position orientation
                      in if \<not> validateFloats_vec position' then
                           (Inl InvalidPosition,
                            setStatus Error ''Camera Info''
                              (Text ''CameraInfo/P resulted in an invalid position calculation (nans or infs)'') d)
                         else
                           let d1 = d\<lparr>camera_position := position'\<rparr>;
                               d2 = d1\<lparr>camera_orientation := orientation\<rparr>;
                               proj_matrix = projection_matrix info img_w img_h zoom_x zoom_y;
                               d3 = d2\<lparr>camera_custom_projection := True,
                                        camera_projection := proj_matrix\<rparr>;
                               d4 = setStatus Ok ''Camera Info'' (Text ''OK'') d3;
                               d5 = d4\<lparr>bg_corners := screen_corners zoom_x zoom_y\<rparr>;
                               d6 = d5\<lparr>fg_corners := screen_corners zoom_x zoom_y\<rparr>;
                               d7 = setStatus Ok ''Time'' (Text ''ok'') d6;
                               d8 = setStatus Ok ''Camera Info'' (Text ''ok'') d7
                           in (Inr (), d8)
      | _ \<Rightarrow> (Inl NoInput, d))"

text \<open>The boolean that the source's \<open>updateCamera\<close> returns.\<close>

fun returned :: "skip + unit \<Rightarrow> bool" where
  "returned (Inr u) = True"
| "returned (Inl s) = False"

subsection \<open>The periodic update\<close>

text \<open>
  One pass of the render window: the rendering library calls the pre-listener, renders,
  and calls the post-listener.
\<close>

definition render_pass :: "Context \<Rightarrow> CameraPub \<Rightarrow> CameraPub" where
  "render_pass c d = postRenderTargetUpdate c (preRenderTargetUpdate d)"

text \<open>
  \<open>update\<close>. \<open>tex\<close> is the outcome of \<open>texture_.update()\<close>: \<open>Inr b\<close> when it returns \<open>b\<close>,
  \<open>Inl what\<close> when it throws \<open>UnsupportedImageEncoding\<close>; the texture members of \<open>d\<close>
  are those after that call.
\<close>

definition update :: "Context \<Rightarrow> string + bool \<Rightarrow> CameraPub \<Rightarrow> CameraPub" where
  "update c tex d =
     (let d1 = (case tex of
                  Inr changed \<Rightarrow>
                    if changed \<or> force_render d then
                      let (r, d') = updateCamera c d
                      in d'\<lparr>caminfo_ok := returned r, force_render := False\<rparr>
                    else d
                | Inl what \<Rightarrow> setStatus Error ''Image'' (Text what) d)
      in render_pass c d1)"

section \<open>The aspect rule as the specification words it\<close>




text \<open>The image size that \<open>updateCamera\<close> works with, after the fallback to the texture.\<close>

definition used_width :: "CameraInfo \<Rightarrow> CameraPub \<Rightarrow> nat" where
  "used_width info d = (if width info = 0 then texture_width d else width info)"

definition used_height :: "CameraInfo \<Rightarrow> CameraPub \<Rightarrow> nat" where
  "used_height info d = (if height info = 0 then texture_height d else height info)"

section \<open>Example inputs\<close>

text \<open>
  A 640 by 480 camera with focal lengths 500 and principal point (320, 240), an image
  stamped at the synchronisation time, a frame manager in exact mode that resolves
  every frame to the identity pose at the origin, and a display showing both surfaces
  in a 640 by 480 panel.
\<close>

definition ex_time :: ros_time where
  "ex_time = \<lparr>sec = 10, nsec = 500\<rparr>"

definition ex_info :: CameraInfo where
  "ex_info = \<lparr>width = 640, height = 480, D = [Fin 0, Fin 0, Fin 0, Fin 0, Fin 0],
     K = (\<lambda>i. Fin ([500, 0, 320, 0, 500, 240, 0, 0, 1] ! i)),
     R = (\<lambda>i. Fin ([1, 0, 0, 0, 1, 0, 0, 0, 1] ! i)),
     P = (\<lambda>i. Fin ([500, 0, 320, 0, 0, 500, 240, 0, 0, 0, 1, 0] ! i))\<rparr>"

definition ex_image :: Image where
  "ex_image = \<lparr>header = \<lparr>seq = 7, stamp = ex_time, frame_id = ''camera''\<rparr>,
     img_height = 480, img_width = 640, encoding = ''rgb8'', step = 1920, data_size = 921600\<rparr>"

definition ex_context :: Context where
  "ex_context = \<lparr>getTime = ex_time, getSyncMode = SyncExact,
     getTransform = (\<lambda>frame t. (True, Vector3 (Fin 0) (Fin 0) (Fin 0), IDENTITY)),
     now = \<lparr>sec = 11, nsec = 0\<rparr>\<rparr>"

definition ex_display :: CameraPub where
  "ex_display = \<lparr>isEnabled = True, topic_property = ''camera/image_raw'',
     image_position_property = BOTH,
     current_caminfo = Some ex_info, texture_image = Some ex_image,
     texture_width = 640, texture_height = 480,
     force_render = False, caminfo_ok = True,
     panel_width = 640, panel_height = 480,
     render_window = \<lparr>rw_width = 640, rw_height = 480, elem_bytes = 3,
       copy_width = 640, copy_height = 480\<rparr>,
     camera_position = Vector3 (Fin 999999) (Fin 999999) (Fin 999999),
     camera_orientation = IDENTITY,
     camera_custom_projection = False,
     camera_projection = ZERO,
     bg_visible = False, fg_visible = False,
     bg_corners = (Fin (- 1), Fin 1, Fin 1, Fin (- 1)),
     fg_corners = (Fin (- 1), Fin 1, Fin 1, Fin (- 1)),
     status = Map.empty,
     video_publisher = \<lparr>pub_topic = ''rviz_out'', image_id = 0, sent = []\<rparr>\<rparr>"

text \<open>
  A frame manager whose lookup fails: \<open>getTransform\<close> returns false and leaves the far
  position and the identity orientation in its output parameters.
\<close>

definition lost_context :: Context where
  "lost_context = ex_context\<lparr>getTransform :=
     (\<lambda>frame t. (False, Vector3 (Fin 9999999) (Fin 9999999) (Fin 9999999), IDENTITY))\<rparr>"

text \<open>
  A frame manager that resolves every frame to the position (1, 2, 3) and the unit
  quaternion \<open>w = 0.6\<close>, \<open>y = 0.8\<close>, a rotation about the Y axis.
\<close>

definition turned_context :: Context where
  "turned_context = ex_context\<lparr>getTransform :=
     (\<lambda>frame t. (True, Vector3 (Fin 1) (Fin 2) (Fin 3),
                  Quaternion (Fin 0.6) (Fin 0) (Fin 0.8) (Fin 0)))\<rparr>"

text \<open>
  A CameraInfo with width 0 and height 480, on a texture that has no size yet.
\<close>

definition narrow_display :: CameraPub where
  "narrow_display = ex_display\<lparr>current_caminfo := Some (ex_info\<lparr>width := 0\<rparr>),
     texture_width := 0, texture_height := 0\<rparr>"

text \<open>The same frame manager, reporting success with the same output values.\<close>

definition found_context :: Context where
  "found_context = ex_context\<lparr>getTransform :=
     (\<lambda>frame t. (True, Vector3 (Fin 9999999) (Fin 9999999) (Fin 9999999), IDENTITY))\<rparr>"

text \<open>The example camera with a NaN as principal point \<open>cx\<close>.\<close>

definition nan_display :: CameraPub where
  "nan_display = ex_display\<lparr>current_caminfo := Some (ex_info\<lparr>P := (P ex_info)(2 := NonFin)\<rparr>)\<rparr>"



text \<open>
  The example camera with the baseline entry \<open>P[3] = 2\<^sup>1\<^sup>4\<^sup>0\<close>, a finite double.
\<close>

definition far_baseline_display :: CameraPub where
  "far_baseline_display =
     ex_display\<lparr>current_caminfo := Some (ex_info\<lparr>P := (P ex_info)(3 := Fin (2 ^ 140))\<rparr>)\<rparr>"

text \<open>A frame manager in exact mode whose time is one nanosecond after the image stamp.\<close>

definition late_context :: Context where
  "late_context = ex_context\<lparr>getTime := \<lparr>sec = 10, nsec = 501\<rparr>\<rparr>"

text \<open>
  A window of 65537 by 65536 one-byte elements that is not resized, and a 640 by 480
  window of three-byte elements that has grown to 1280 by 960 when it is read back.
\<close>

definition huge_window :: RenderWindow where
  "huge_window = \<lparr>rw_width = 65537, rw_height = 65536, elem_bytes = 1,
     copy_width = 65537, copy_height = 65536\<rparr>"

definition resized_window :: RenderWindow where
  "resized_window = \<lparr>rw_width = 640, rw_height = 480, elem_bytes = 3,
     copy_width = 1280, copy_height = 960\<rparr>"

section \<open>Auxiliary facts\<close>

lemma rot180x: "FromAngleAxis (Degree 180) UNIT_X = Quaternion (Fin 0) (Fin 1) (Fin 0) (Fin 0)"
  by (simp add: Degree_def UNIT_X_def)

lemma rot180z: "FromAngleAxis (Degree 180) UNIT_Z = Quaternion (Fin 0) (Fin 0) (Fin 0) (Fin 1)"
  by (simp add: Degree_def UNIT_Z_def)

lemma img_w_used:
  "(if width info = 0 then Fin (real (texture_width d))
    else Fin (real (width info))) = Fin (real (used_width info d))"
  by (simp add: used_width_def)

lemma img_h_used:
  "(if height info = 0 then Fin (real (texture_height d))
    else Fin (real (height info))) = Fin (real (used_height info d))"
  by (simp add: used_height_def)

lemma updateCamera_NoInput:
  assumes "current_caminfo d = None \<or> texture_image d = None"
  shows "updateCamera c d = (Inl NoInput, d)"
  using assms by (auto simp: updateCamera_def split: option.splits)

lemma updateCamera_InvalidFloats:
  assumes "current_caminfo d = Some info" and "texture_image d = Some img"
    and "\<not> validateFloats info"
  shows "updateCamera c d = (Inl InvalidFloats, setStatus Error ''Camera Info''
           (Text ''Contains invalid floating point values (nans or infs)'') d)"
  using assms by (simp add: updateCamera_def)

lemma updateCamera_TimeMismatch:
  assumes "current_caminfo d = Some info" and "texture_image d = Some img"
    and "validateFloats info"
    and "getSyncMode c = SyncExact" and "getTime c \<noteq> stamp (header img)"
  shows "updateCamera c d =
           (Inl TimeMismatch, setStatus Warn ''Time'' (NoImageAtTimestamp (getTime c)) d)"
  using assms by (simp add: updateCamera_def)

lemma updateCamera_Malformed:
  assumes "current_caminfo d = Some info" and "texture_image d = Some img"
    and "validateFloats info"
    and "getSyncMode c \<noteq> SyncExact \<or> getTime c = stamp (header img)"
    and "used_width info d = 0 \<or> used_height info d = 0"
  shows "updateCamera c d = (Inl Malformed, setStatus Error ''Camera Info''
           (Text ''Could not determine width/height of image due to malformed CameraInfo (either width or height is 0)'') d)"
  using assms
  by (auto simp: updateCamera_def Let_def img_w_used img_h_used split: prod.splits)

lemma updateCamera_InvalidPosition:
  assumes "current_caminfo d = Some info" and "texture_image d = Some img"
    and "validateFloats info"
    and "getSyncMode c \<noteq> SyncExact \<or> getTime c = stamp (header img)"
    and "used_width info d \<noteq> 0" and "used_height info d \<noteq> 0"
    and "getTransform c (frame_id (header img)) (stamp (header img)) = (found, position, o0)"
    and "\<not> validateFloats_vec (baseline_position info position
            (qmul o0 (FromAngleAxis (Degree 180) UNIT_X)))"
  shows "updateCamera c d = (Inl InvalidPosition, setStatus Error ''Camera Info''
           (Text ''CameraInfo/P resulted in an invalid position calculation (nans or infs)'') d)"
  using assms
  by (auto simp: updateCamera_def Let_def img_w_used img_h_used split: prod.splits)

lemma updateCamera_accept:
  assumes "current_caminfo d = Some info" and "texture_image d = Some img"
    and "validateFloats info"
    and "getSyncMode c \<noteq> SyncExact \<or> getTime c = stamp (header img)"
    and "used_width info d \<noteq> 0" and "used_height info d \<noteq> 0"
    and "getTransform c (frame_id (header img)) (stamp (header img)) = (found, position, o0)"
    and "validateFloats_vec (baseline_position info position
            (qmul o0 (FromAngleAxis (Degree 180) UNIT_X)))"
    and "zoom_factors (Fin (real (used_width info d))) (Fin (real (used_height info d)))
           (P info 0) (P info 5) (Fin (real_of_int (panel_width d)))
           (Fin (real_of_int (panel_height d))) = (zoom_x, zoom_y)"
  shows "updateCamera c d = (Inr (),
           d\<lparr>camera_position :=
               baseline_position info position (qmul o0 (FromAngleAxis (Degree 180) UNIT_X)),
             camera_orientation := qmul o0 (FromAngleAxis (Degree 180) UNIT_X),
             camera_custom_projection := True,
             camera_projection := projection_matrix info (Fin (real (used_width info d)))
               (Fin (real (used_height info d))) zoom_x zoom_y,
             bg_corners := screen_corners zoom_x zoom_y,
             fg_corners := screen_corners zoom_x zoom_y,
             status := (status d)(''Camera Info'' \<mapsto> (Ok, Text ''OK''),
                          ''Time'' \<mapsto> (Ok, Text ''ok''),
                          ''Camera Info'' \<mapsto> (Ok, Text ''ok''))\<rparr>)"
  using assms
  by (simp add: updateCamera_def Let_def img_w_used img_h_used setStatus_def)

text \<open>Every call takes exactly one of the six ways through the function.\<close>

lemma updateCamera_paths:
  obtains
    (NoInput) "current_caminfo d = None \<or> texture_image d = None"
      "updateCamera c d = (Inl NoInput, d)"
  | (InvalidFloats) info img where "current_caminfo d = Some info" "texture_image d = Some img"
      "\<not> validateFloats info"
      "updateCamera c d = (Inl InvalidFloats, setStatus Error ''Camera Info''
           (Text ''Contains invalid floating point values (nans or infs)'') d)"
  | (TimeMismatch) info img where "current_caminfo d = Some info" "texture_image d = Some img"
      "validateFloats info" "getSyncMode c = SyncExact" "getTime c \<noteq> stamp (header img)"
      "updateCamera c d =
           (Inl TimeMismatch, setStatus Warn ''Time'' (NoImageAtTimestamp (getTime c)) d)"
  | (Malformed) info img where "current_caminfo d = Some info" "texture_image d = Some img"
      "validateFloats info" "getSyncMode c \<noteq> SyncExact \<or> getTime c = stamp (header img)"
      "used_width info d = 0 \<or> used_height info d = 0"
      "updateCamera c d = (Inl Malformed, setStatus Error ''Camera Info''
           (Text ''Could not determine width/height of image due to malformed CameraInfo (either width or height is 0)'') d)"
  | (InvalidPosition) info img found position o0 where
      "current_caminfo d = Some info" "texture_image d = Some img"
      "validateFloats info" "getSyncMode c \<noteq> SyncExact \<or> getTime c = stamp (header img)"
      "used_width info d \<noteq> 0" "used_height info d \<noteq> 0"
      "getTransform c (frame_id (header img)) (stamp (header img)) = (found, position, o0)"
      "\<not> validateFloats_vec (baseline_position info position
            (qmul o0 (FromAngleAxis (Degree 180) UNIT_X)))"
      "updateCamera c d = (Inl InvalidPosition, setStatus Error ''Camera Info''
           (Text ''CameraInfo/P resulted in an invalid position calculation (nans or infs)'') d)"
  | (Accept) info img found position o0 zoom_x zoom_y where
      "current_caminfo d = Some info" "texture_image d = Some img"
      "validateFloats info" "getSyncMode c \<noteq> SyncExact \<or> getTime c = stamp (header img)"
      "used_width info d \<noteq> 0" "used_height info d \<noteq> 0"
      "getTransform c (frame_id (header img)) (stamp (header img)) = (found, position, o0)"
      "validateFloats_vec (baseline_position info position
            (qmul o0 (FromAngleAxis (Degree 180) UNIT_X)))"
      "zoom_factors (Fin (real (used_width info d))) (Fin (real (used_height info d)))
           (P info 0) (P info 5) (Fin (real_of_int (panel_width d)))
           (Fin (real_of_int (panel_height d))) = (zoom_x, zoom_y)"
      "updateCamera c d = (Inr (),
           d\<lparr>camera_position :=
               baseline_position info position (qmul o0 (FromAngleAxis (Degree 180) UNIT_X)),
             camera_orientation := qmul o0 (FromAngleAxis (Degree 180) UNIT_X),
             camera_custom_projection := True,
             camera_projection := projection_matrix info (Fin (real (used_width info d)))
               (Fin (real (used_height info d))) zoom_x zoom_y,
             bg_corners := screen_corners zoom_x zoom_y,
             fg_corners := screen_corners zoom_x zoom_y,
             status := (status d)(''Camera Info'' \<mapsto> (Ok, Text ''OK''),
                          ''Time'' \<mapsto> (Ok, Text ''ok''),
                          ''Camera Info'' \<mapsto> (Ok, Text ''ok''))\<rparr>)"
proof (cases "current_caminfo d = None \<or> texture_image d = None")
  case True
  then show ?thesis using NoInput updateCamera_NoInput by blast
next
  case False
  then obtain info img where in_: "current_caminfo d = Some info" "texture_image d = Some img"
    by auto
  show ?thesis
  proof (cases "validateFloats info")
    case False
    then show ?thesis using InvalidFloats in_ updateCamera_InvalidFloats by blast
  next
    case vf: True
    show ?thesis
    proof (cases "getSyncMode c = SyncExact \<and> getTime c \<noteq> stamp (header img)")
      case True
      then show ?thesis using TimeMismatch in_ vf updateCamera_TimeMismatch by blast
    next
      case False
      then have sync: "getSyncMode c \<noteq> SyncExact \<or> getTime c = stamp (header img)" by blast
      show ?thesis
      proof (cases "used_width info d = 0 \<or> used_height info d = 0")
        case True
        then show ?thesis using Malformed in_ vf sync updateCamera_Malformed by blast
      next
        case False
        then have dims: "used_width info d \<noteq> 0" "used_height info d \<noteq> 0" by auto
        obtain found position o0 where
          tf: "getTransform c (frame_id (header img)) (stamp (header img)) = (found, position, o0)"
          by (cases "getTransform c (frame_id (header img)) (stamp (header img))") auto
        show ?thesis
        proof (cases "validateFloats_vec (baseline_position info position
            (qmul o0 (FromAngleAxis (Degree 180) UNIT_X)))")
          case False
          then show ?thesis
            using InvalidPosition [OF in_ vf sync dims tf] updateCamera_InvalidPosition [OF in_ vf sync dims tf]
            by blast
        next
          case True
          obtain zoom_x zoom_y where
            z: "zoom_factors (Fin (real (used_width info d))) (Fin (real (used_height info d)))
                 (P info 0) (P info 5) (Fin (real_of_int (panel_width d)))
                 (Fin (real_of_int (panel_height d))) = (zoom_x, zoom_y)"
            by (cases "zoom_factors (Fin (real (used_width info d)))
                 (Fin (real (used_height info d)))
                 (P info 0) (P info 5) (Fin (real_of_int (panel_width d)))
                 (Fin (real_of_int (panel_height d)))") auto
          show ?thesis
            using Accept [OF in_ vf sync dims tf True z]
              updateCamera_accept [OF in_ vf sync dims tf True z]
            by blast
        qed
      qed
    qed
  qed
qed

lemma is_fin_iff: "is_fin x = (x \<noteq> NonFin)"
  by (cases x) auto

lemma list_all_upt: "list_all p (map f [0..<n]) = (\<forall>i<n. p (f i))"
  by (auto simp: list_all_iff)

lemma validateFloats_iff:
  "validateFloats info =
     (\<not> (NonFin \<in> set (D info) \<or> (\<exists>i<9. K info i = NonFin) \<or> (\<exists>i<9. R info i = NonFin)
         \<or> (\<exists>i<12. P info i = NonFin)))"
  unfolding validateFloats_def Let_def list_all_upt
  by (auto simp: list_all_iff is_fin_iff)

lemma alloc_bytes_div: "alloc_bytes ds = (unat ds * 21) div 20"
proof -
  have "real (unat ds) * 1.05 = real (unat ds * 21) / real 20" by simp
  then have "\<lfloor>real (unat ds) * 1.05\<rfloor> = int ((unat ds * 21) div 20)"
    by (simp only: floor_divide_of_nat_eq)
  then show ?thesis by (simp add: alloc_bytes_def)
qed

lemma margin_covers: "(n::nat) \<le> (n * 21) div 20"
proof -
  have "n * 20 \<le> n * 21" by simp
  then have "(n * 20) div 20 \<le> (n * 21) div 20" by (rule div_le_mono)
  then show ?thesis by simp
qed

lemma unat_datasize_of:
  assumes "unat w * unat h * unat p < 2 ^ 32"
  shows "unat (datasize_of w h p) = unat w * unat h * unat p"
proof -
  have "unat (w * h * p) = (unat w * unat h * unat p) mod 2 ^ 32"
    by (simp add: unat_word_ariths mod_mult_left_eq)
  with assms show ?thesis by (simp add: datasize_of_def)
qed

text \<open>
  \<open>caminfo_ok\<close> is the result of the last \<open>updateCamera\<close>: \<open>update\<close> stores it whenever
  the texture changed or a render was forced, before the window is rendered.
\<close>

lemma update_caminfo_ok:
  "tex = Inr True \<or> (tex = Inr False \<and> force_render d) \<Longrightarrow>
   caminfo_ok (update c tex d) = returned (fst (updateCamera c d))"
  by (auto simp: update_def render_pass_def preRenderTargetUpdate_def postRenderTargetUpdate_def
      Let_def split: prod.splits)


lemma updateCamera_Inr:
  assumes "updateCamera c d = (Inr u, d')"
  obtains info img found position o0 zoom_x zoom_y where
      "current_caminfo d = Some info" "texture_image d = Some img"
      "validateFloats info" "getSyncMode c \<noteq> SyncExact \<or> getTime c = stamp (header img)"
      "used_width info d \<noteq> 0" "used_height info d \<noteq> 0"
      "getTransform c (frame_id (header img)) (stamp (header img)) = (found, position, o0)"
      "validateFloats_vec (baseline_position info position
            (qmul o0 (FromAngleAxis (Degree 180) UNIT_X)))"
      "zoom_factors (Fin (real (used_width info d))) (Fin (real (used_height info d)))
           (P info 0) (P info 5) (Fin (real_of_int (panel_width d)))
           (Fin (real_of_int (panel_height d))) = (zoom_x, zoom_y)"
      "d' = d\<lparr>camera_position :=
               baseline_position info position (qmul o0 (FromAngleAxis (Degree 180) UNIT_X)),
             camera_orientation := qmul o0 (FromAngleAxis (Degree 180) UNIT_X),
             camera_custom_projection := True,
             camera_projection := projection_matrix info (Fin (real (used_width info d)))
               (Fin (real (used_height info d))) zoom_x zoom_y,
             bg_corners := screen_corners zoom_x zoom_y,
             fg_corners := screen_corners zoom_x zoom_y,
             status := (status d)(''Camera Info'' \<mapsto> (Ok, Text ''OK''),
                          ''Time'' \<mapsto> (Ok, Text ''ok''),
                          ''Camera Info'' \<mapsto> (Ok, Text ''ok''))\<rparr>"
proof (cases c d rule: updateCamera_paths)
  case NoInput
  with assms show ?thesis by simp
next
  case (InvalidFloats info img)
  with assms show ?thesis by simp
next
  case (TimeMismatch info img)
  with assms show ?thesis by simp
next
  case (Malformed info img)
  with assms show ?thesis by simp
next
  case (InvalidPosition info img found position o0)
  with assms show ?thesis by simp
next
  case (Accept info img found position o0 zoom_x zoom_y)
  from assms Accept(10) have "d' = d\<lparr>camera_position :=
               baseline_position info position (qmul o0 (FromAngleAxis (Degree 180) UNIT_X)),
             camera_orientation := qmul o0 (FromAngleAxis (Degree 180) UNIT_X),
             camera_custom_projection := True,
             camera_projection := projection_matrix info (Fin (real (used_width info d)))
               (Fin (real (used_height info d))) zoom_x zoom_y,
             bg_corners := screen_corners zoom_x zoom_y,
             fg_corners := screen_corners zoom_x zoom_y,
             status := (status d)(''Camera Info'' \<mapsto> (Ok, Text ''OK''),
                          ''Time'' \<mapsto> (Ok, Text ''ok''),
                          ''Camera Info'' \<mapsto> (Ok, Text ''ok''))\<rparr>"
    by simp
  with Accept(1-9) show ?thesis by (rule that)
qed


lemma fmul_NonFin_right: "fmul a NonFin = NonFin"
  by (cases a) simp_all

lemma fdiv64_zero: "fdiv64 a (Fin 0) = NonFin"
  by (cases a) simp_all

lemma fmul32_NonFin_right: "fmul32 a NonFin = NonFin"
  by (cases a) simp_all

lemma fadd32_NonFin_right: "fadd32 a NonFin = NonFin"
  by (cases a) simp_all

lemma vscale32_NonFin: "vscale32 v NonFin = Vector3 NonFin NonFin NonFin"
  by (cases v) (simp add: fmul32_NonFin_right)

lemma vadd32_NonFin_right:
  "vadd32 v (Vector3 NonFin NonFin NonFin) = Vector3 NonFin NonFin NonFin"
  by (cases v) (simp add: fadd32_NonFin_right)

lemma vadd32_NonFin_left:
  "vadd32 (Vector3 NonFin NonFin NonFin) v = Vector3 NonFin NonFin NonFin"
  by (cases v) simp

text \<open>
  A zero focal length makes a baseline offset non-finite, and with it the whole
  position, so such a call never returns true: whatever the aspect-ratio block made of
  the division by zero, the result is not used.
\<close>

lemma zero_focal_position:
  assumes "P info 0 = Fin 0 \<or> P info 5 = Fin 0"
  shows "baseline_position info position orientation = Vector3 NonFin NonFin NonFin"
  using assms
proof
  assume "P info 0 = Fin 0"
  then have "to_float32 (fmul (Fin (- 1)) (fdiv64 (P info 3) (P info 0))) = NonFin"
    by (simp add: fdiv64_zero)
  then show ?thesis
    unfolding baseline_position_def Let_def
    by (simp only: vscale32_NonFin vadd32_NonFin_right vadd32_NonFin_left)
next
  assume "P info 5 = Fin 0"
  then have "to_float32 (fmul (Fin (- 1)) (fdiv64 (P info 7) (P info 5))) = NonFin"
    by (simp add: fdiv64_zero)
  then show ?thesis
    unfolding baseline_position_def Let_def
    by (simp only: vscale32_NonFin vadd32_NonFin_right)
qed

lemma zero_focal_rejected:
  assumes "current_caminfo d = Some info" and "P info 0 = Fin 0 \<or> P info 5 = Fin 0"
  shows "\<not> returned (fst (updateCamera c d))"
proof
  assume "returned (fst (updateCamera c d))"
  then obtain u where "updateCamera c d = (Inr u, snd (updateCamera c d))"
    by (cases "updateCamera c d"; cases "fst (updateCamera c d)") auto
  then obtain info' img found position o0 where "current_caminfo d = Some info'"
    "validateFloats_vec (baseline_position info' position
            (qmul o0 (FromAngleAxis (Degree 180) UNIT_X)))"
    by (rule updateCamera_Inr)
  with assms show False by (simp add: zero_focal_position)
qed

section \<open>Bounds on the rounding\<close>














section \<open>The example inputs evaluated\<close>

lemma validateFloats_ex_info: "validateFloats ex_info"
  by (simp add: validateFloats_def ex_info_def upt_rec)

lemmas fl_eval =
  r32_def r64_def fl_round_def ilog2_def pow2_def round_even_def Let_def compute_bitlen

lemma ex_baseline_origin:
  "baseline_position ex_info (Vector3 (Fin 0) (Fin 0) (Fin 0))
     (Quaternion (Fin 0) (Fin 1) (Fin 0) (Fin 0)) = Vector3 (Fin 0) (Fin 0) (Fin 0)"
  by (simp add: baseline_position_def ex_info_def UNIT_X_def UNIT_Y_def fl_eval)

lemma ex_baseline_far:
  "baseline_position ex_info (Vector3 (Fin 9999999) (Fin 9999999) (Fin 9999999))
     (Quaternion (Fin 0) (Fin 1) (Fin 0) (Fin 0))
     = Vector3 (Fin 9999999) (Fin 9999999) (Fin 9999999)"
  by (simp add: baseline_position_def ex_info_def UNIT_X_def UNIT_Y_def fl_eval)

lemma ex_orientation:
  "qmul IDENTITY (FromAngleAxis (Degree 180) UNIT_X) = Quaternion (Fin 0) (Fin 1) (Fin 0) (Fin 0)"
  by (simp add: rot180x IDENTITY_def)

lemma ex_zoom:
  "zoom_factors (Fin 640) (Fin 480) (P ex_info 0) (P ex_info 5) (Fin 640) (Fin 480)
     = (Fin 1, Fin 1)"
  by (simp add: zoom_factors_def img_aspect_of_def win_aspect_of_def ex_info_def fl_eval)

lemma ex_accept:
  "updateCamera ex_context ex_display = (Inr (),
     ex_display\<lparr>camera_position := Vector3 (Fin 0) (Fin 0) (Fin 0),
       camera_orientation := Quaternion (Fin 0) (Fin 1) (Fin 0) (Fin 0),
       camera_custom_projection := True,
       camera_projection := projection_matrix ex_info (Fin 640) (Fin 480) (Fin 1) (Fin 1),
       bg_corners := screen_corners (Fin 1) (Fin 1),
       fg_corners := screen_corners (Fin 1) (Fin 1),
       status := [''Time'' \<mapsto> (Ok, Text ''ok''), ''Camera Info'' \<mapsto> (Ok, Text ''ok'')]\<rparr>)"
proof -
  have 1: "current_caminfo ex_display = Some ex_info" "texture_image ex_display = Some ex_image"
    by (simp_all add: ex_display_def)
  have 2: "getSyncMode ex_context \<noteq> SyncExact \<or> getTime ex_context = stamp (header ex_image)"
    by (simp add: ex_context_def ex_image_def)
  have 3: "used_width ex_info ex_display \<noteq> 0" "used_height ex_info ex_display \<noteq> 0"
    by (simp_all add: used_width_def used_height_def ex_info_def)
  have 4: "getTransform ex_context (frame_id (header ex_image)) (stamp (header ex_image))
      = (True, Vector3 (Fin 0) (Fin 0) (Fin 0), IDENTITY)"
    by (simp add: ex_context_def)
  have 5: "baseline_position ex_info (Vector3 (Fin 0) (Fin 0) (Fin 0))
      (qmul IDENTITY (FromAngleAxis (Degree 180) UNIT_X)) = Vector3 (Fin 0) (Fin 0) (Fin 0)"
    by (simp add: ex_orientation ex_baseline_origin)
  have 6: "validateFloats_vec (baseline_position ex_info (Vector3 (Fin 0) (Fin 0) (Fin 0))
      (qmul IDENTITY (FromAngleAxis (Degree 180) UNIT_X)))"
    by (simp add: 5)
  have 7: "zoom_factors (Fin (real (used_width ex_info ex_display)))
      (Fin (real (used_height ex_info ex_display)))
      (P ex_info 0) (P ex_info 5) (Fin (real_of_int (panel_width ex_display)))
      (Fin (real_of_int (panel_height ex_display))) = (Fin 1, Fin 1)"
    using ex_zoom by (simp add: used_width_def used_height_def ex_info_def ex_display_def)
  have 8: "used_width ex_info ex_display = 640" "used_height ex_info ex_display = 480"
    by (simp_all add: used_width_def used_height_def ex_info_def)
  have 9: "status ex_display = Map.empty" by (simp add: ex_display_def)
  show ?thesis
    using updateCamera_accept [OF 1 validateFloats_ex_info 2 3 4 6 7]
    by (simp add: 8 9 ex_orientation ex_baseline_origin)
qed

lemma validateFloats_narrow: "validateFloats (ex_info\<lparr>width := 0\<rparr>)"
  by (simp add: validateFloats_def ex_info_def upt_rec)

lemma narrow_reject:
  "updateCamera ex_context narrow_display = (Inl Malformed, setStatus Error ''Camera Info''
     (Text ''Could not determine width/height of image due to malformed CameraInfo (either width or height is 0)'')
     narrow_display)"
proof -
  have 1: "current_caminfo narrow_display = Some (ex_info\<lparr>width := 0\<rparr>)"
    "texture_image narrow_display = Some ex_image"
    by (simp_all add: narrow_display_def ex_display_def)
  have 2: "getSyncMode ex_context \<noteq> SyncExact \<or> getTime ex_context = stamp (header ex_image)"
    by (simp add: ex_context_def ex_image_def)
  have 3: "used_width (ex_info\<lparr>width := 0\<rparr>) narrow_display = 0
      \<or> used_height (ex_info\<lparr>width := 0\<rparr>) narrow_display = 0"
    by (simp add: used_width_def narrow_display_def)
  show ?thesis by (rule updateCamera_Malformed [OF 1 validateFloats_narrow 2 3])
qed


lemma turned_orientation:
  "qmul (Quaternion (Fin 0.6) (Fin 0) (Fin 0.8) (Fin 0)) (FromAngleAxis (Degree 180) UNIT_X)
     = Quaternion (Fin 0) (Fin 0.6) (Fin 0) (Fin (- 0.8))"
  by (simp add: rot180x)

lemma turned_accept:
  "updateCamera turned_context ex_display = (Inr (),
     ex_display\<lparr>camera_position := Vector3 (Fin 1) (Fin 2) (Fin 3),
       camera_orientation := Quaternion (Fin 0) (Fin 0.6) (Fin 0) (Fin (- 0.8)),
       camera_custom_projection := True,
       camera_projection := projection_matrix ex_info (Fin 640) (Fin 480) (Fin 1) (Fin 1),
       bg_corners := screen_corners (Fin 1) (Fin 1),
       fg_corners := screen_corners (Fin 1) (Fin 1),
       status := [''Time'' \<mapsto> (Ok, Text ''ok''), ''Camera Info'' \<mapsto> (Ok, Text ''ok'')]\<rparr>)"
proof -
  have 1: "current_caminfo ex_display = Some ex_info" "texture_image ex_display = Some ex_image"
    by (simp_all add: ex_display_def)
  have 2: "getSyncMode turned_context \<noteq> SyncExact
      \<or> getTime turned_context = stamp (header ex_image)"
    by (simp add: turned_context_def ex_context_def ex_image_def)
  have 3: "used_width ex_info ex_display \<noteq> 0" "used_height ex_info ex_display \<noteq> 0"
    by (simp_all add: used_width_def used_height_def ex_info_def)
  have 4: "getTransform turned_context (frame_id (header ex_image)) (stamp (header ex_image))
      = (True, Vector3 (Fin 1) (Fin 2) (Fin 3), Quaternion (Fin 0.6) (Fin 0) (Fin 0.8) (Fin 0))"
    by (simp add: turned_context_def)
  have 5: "baseline_position ex_info (Vector3 (Fin 1) (Fin 2) (Fin 3))
      (Quaternion (Fin 0) (Fin 0.6) (Fin 0) (Fin (- 0.8))) = Vector3 (Fin 1) (Fin 2) (Fin 3)"
    by (simp add: baseline_position_def ex_info_def UNIT_X_def UNIT_Y_def fl_eval)
  have 6: "validateFloats_vec (baseline_position ex_info (Vector3 (Fin 1) (Fin 2) (Fin 3))
      (qmul (Quaternion (Fin 0.6) (Fin 0) (Fin 0.8) (Fin 0)) (FromAngleAxis (Degree 180) UNIT_X)))"
    unfolding turned_orientation 5 by simp
  have 7: "zoom_factors (Fin (real (used_width ex_info ex_display)))
      (Fin (real (used_height ex_info ex_display)))
      (P ex_info 0) (P ex_info 5) (Fin (real_of_int (panel_width ex_display)))
      (Fin (real_of_int (panel_height ex_display))) = (Fin 1, Fin 1)"
    using ex_zoom by (simp add: used_width_def used_height_def ex_info_def ex_display_def)
  have 8: "used_width ex_info ex_display = 640" "used_height ex_info ex_display = 480"
    by (simp_all add: used_width_def used_height_def ex_info_def)
  have 9: "status ex_display = Map.empty" by (simp add: ex_display_def)
  show ?thesis
    using updateCamera_accept [OF 1 validateFloats_ex_info 2 3 4 6 7]
    unfolding turned_orientation 5
    by (simp add: 8 9)
qed







lemma validateFloats_nan: "\<not> validateFloats (ex_info\<lparr>P := (P ex_info)(2 := NonFin)\<rparr>)"
  by (simp add: validateFloats_def ex_info_def upt_rec)

lemma validateFloats_far_baseline:
  "validateFloats (ex_info\<lparr>P := (P ex_info)(3 := Fin (2 ^ 140))\<rparr>)"
  by (simp add: validateFloats_def ex_info_def upt_rec)

text \<open>
  A baseline entry can be a finite double and still give no position: with
  \<open>P[3] = 2\<^sup>1\<^sup>4\<^sup>0\<close> and \<open>fx = 500\<close> the offset \<open>tx\<close> is a finite double beyond the largest
  float, its conversion for the product with the \<open>Vector3\<close> is infinite, and the call is
  refused for its position.
\<close>

lemma baseline_overflow_rejected:
  "updateCamera ex_context far_baseline_display = (Inl InvalidPosition,
     setStatus Error ''Camera Info''
       (Text ''CameraInfo/P resulted in an invalid position calculation (nans or infs)'')
       far_baseline_display)"
proof -
  let ?i = "ex_info\<lparr>P := (P ex_info)(3 := Fin (2 ^ 140))\<rparr>"
  have 1: "current_caminfo far_baseline_display = Some ?i"
    "texture_image far_baseline_display = Some ex_image"
    by (simp_all add: far_baseline_display_def ex_display_def)
  have 2: "getSyncMode ex_context \<noteq> SyncExact \<or> getTime ex_context = stamp (header ex_image)"
    by (simp add: ex_context_def ex_image_def)
  have 3: "used_width ?i far_baseline_display \<noteq> 0" "used_height ?i far_baseline_display \<noteq> 0"
    by (simp_all add: used_width_def used_height_def ex_info_def)
  have 4: "getTransform ex_context (frame_id (header ex_image)) (stamp (header ex_image))
      = (True, Vector3 (Fin 0) (Fin 0) (Fin 0), IDENTITY)"
    by (simp add: ex_context_def)
  have "to_float32 (fmul (Fin (- 1)) (fdiv64 (P ?i 3) (P ?i 0))) = NonFin"
    by (simp add: ex_info_def fl_eval)
  then have 5: "baseline_position ?i (Vector3 (Fin 0) (Fin 0) (Fin 0))
      (qmul IDENTITY (FromAngleAxis (Degree 180) UNIT_X)) = Vector3 NonFin NonFin NonFin"
    unfolding baseline_position_def Let_def
    by (simp only: vscale32_NonFin vadd32_NonFin_right vadd32_NonFin_left)
  have 6: "\<not> validateFloats_vec (baseline_position ?i (Vector3 (Fin 0) (Fin 0) (Fin 0))
      (qmul IDENTITY (FromAngleAxis (Degree 180) UNIT_X)))"
    unfolding 5 by simp
  show ?thesis
    by (rule updateCamera_InvalidPosition [OF 1 validateFloats_far_baseline 2 3 4 6])
qed

section \<open>The claims\<close>

text \<open>
  C1. With a CameraInfo of width 640, height 480 and
  \<open>P = [500,0,320,0, 0,500,240,0, 0,0,1,0]\<close> (and finite \<open>D\<close>, \<open>K\<close>, \<open>R\<close>), an image whose
  frame resolves to the identity orientation at the origin, a time check that passes
  and a 640 by 480 panel, \<open>updateCamera\<close> returns true with both zoom factors 1 (the
  screen rectangles keep their full size), the projection entries \<open>[0][2]\<close> and
  \<open>[1][2]\<close> equal to 0, and the camera at the origin, the pose's position: both baseline
  offsets are 0.
\<close>

theorem end_to_end_example:
  assumes "current_caminfo d = Some info" and "texture_image d = Some img"
    and "width info = 640" and "height info = 480"
    and "map (P info) [0..<12] = map Fin [500, 0, 320, 0, 0, 500, 240, 0, 0, 0, 1, 0]"
    and "validateFloats info"
    and "getSyncMode c \<noteq> SyncExact \<or> getTime c = stamp (header img)"
    and "getTransform c (frame_id (header img)) (stamp (header img))
           = (found, Vector3 (Fin 0) (Fin 0) (Fin 0), IDENTITY)"
    and "panel_width d = 640" and "panel_height d = 480"
  shows "\<exists>d'. updateCamera c d = (Inr (), d')
     \<and> zoom_factors (Fin 640) (Fin 480) (P info 0) (P info 5) (Fin 640) (Fin 480) = (Fin 1, Fin 1)
     \<and> bg_corners d' = screen_corners (Fin 1) (Fin 1)
     \<and> fg_corners d' = screen_corners (Fin 1) (Fin 1)
     \<and> camera_projection d' (0, 0) = Fin (2 * 500 / 640)
     \<and> camera_projection d' (1, 1) = Fin (2 * 500 / 480)
     \<and> camera_projection d' (0, 2) = Fin 0
     \<and> camera_projection d' (1, 2) = Fin 0
     \<and> camera_position d' = Vector3 (Fin 0) (Fin 0) (Fin 0)
     \<and> camera_orientation d' = Quaternion (Fin 0) (Fin 1) (Fin 0) (Fin 0)"
proof -
  have "\<forall>i<12. map (P info) [0..<12] ! i = map Fin [500, 0, 320, 0, 0, 500, 240, 0, 0, 0, 1, 0] ! i"
    using assms(5) by simp
  then have "\<forall>i<12. P info i = map Fin [500, 0, 320, 0, 0, 500, 240, 0, 0, 0, 1, 0] ! i"
    by simp
  then have p: "P info 0 = Fin 500" "P info 2 = Fin 320" "P info 3 = Fin 0"
    "P info 5 = Fin 500" "P info 6 = Fin 240" "P info 7 = Fin 0"
    by simp_all
  have dims: "used_width info d = 640" "used_height info d = 480"
    using assms(3,4) by (simp_all add: used_width_def used_height_def)
  have pos: "baseline_position info (Vector3 (Fin 0) (Fin 0) (Fin 0))
      (qmul IDENTITY (FromAngleAxis (Degree 180) UNIT_X)) = Vector3 (Fin 0) (Fin 0) (Fin 0)"
    unfolding ex_orientation
    by (simp add: baseline_position_def p UNIT_X_def UNIT_Y_def fl_eval)
  have z: "zoom_factors (Fin 640) (Fin 480) (P info 0) (P info 5) (Fin 640) (Fin 480)
      = (Fin 1, Fin 1)"
    by (simp add: zoom_factors_def img_aspect_of_def win_aspect_of_def p fl_eval)
  have acc: "updateCamera c d = (Inr (),
           d\<lparr>camera_position :=
               baseline_position info (Vector3 (Fin 0) (Fin 0) (Fin 0))
                 (qmul IDENTITY (FromAngleAxis (Degree 180) UNIT_X)),
             camera_orientation := qmul IDENTITY (FromAngleAxis (Degree 180) UNIT_X),
             camera_custom_projection := True,
             camera_projection := projection_matrix info (Fin (real (used_width info d)))
               (Fin (real (used_height info d))) (Fin 1) (Fin 1),
             bg_corners := screen_corners (Fin 1) (Fin 1),
             fg_corners := screen_corners (Fin 1) (Fin 1),
             status := (status d)(''Camera Info'' \<mapsto> (Ok, Text ''OK''),
                          ''Time'' \<mapsto> (Ok, Text ''ok''),
                          ''Camera Info'' \<mapsto> (Ok, Text ''ok''))\<rparr>)"
    using assms(1,2,6,7) _ _ assms(8)
  proof (rule updateCamera_accept)
    show "used_width info d \<noteq> 0" "used_height info d \<noteq> 0" by (simp_all add: dims)
    show "validateFloats_vec (baseline_position info (Vector3 (Fin 0) (Fin 0) (Fin 0))
      (qmul IDENTITY (FromAngleAxis (Degree 180) UNIT_X)))" by (simp add: pos)
    show "zoom_factors (Fin (real (used_width info d))) (Fin (real (used_height info d)))
       (P info 0) (P info 5) (Fin (real_of_int (panel_width d)))
       (Fin (real_of_int (panel_height d))) = (Fin 1, Fin 1)"
      using z by (simp add: dims assms(9,10))
  qed
  have pos': "baseline_position info (Vector3 (Fin 0) (Fin 0) (Fin 0))
      (Quaternion (Fin 0) (Fin 1) (Fin 0) (Fin 0)) = Vector3 (Fin 0) (Fin 0) (Fin 0)"
    using pos unfolding ex_orientation .
  have proj: "projection_matrix info (Fin 640) (Fin 480) (Fin 1) (Fin 1) (0, 0) = Fin (2 * 500 / 640)"
    "projection_matrix info (Fin 640) (Fin 480) (Fin 1) (Fin 1) (1, 1) = Fin (2 * 500 / 480)"
    "projection_matrix info (Fin 640) (Fin 480) (Fin 1) (Fin 1) (0, 2) = Fin 0"
    "projection_matrix info (Fin 640) (Fin 480) (Fin 1) (Fin 1) (1, 2) = Fin 0"
    by (simp_all add: projection_matrix_def p Let_def)
  have "updateCamera c d = (Inr (),
           d\<lparr>camera_position := Vector3 (Fin 0) (Fin 0) (Fin 0),
             camera_orientation := Quaternion (Fin 0) (Fin 1) (Fin 0) (Fin 0),
             camera_custom_projection := True,
             camera_projection := projection_matrix info (Fin 640) (Fin 480) (Fin 1) (Fin 1),
             bg_corners := screen_corners (Fin 1) (Fin 1),
             fg_corners := screen_corners (Fin 1) (Fin 1),
             status := (status d)(''Camera Info'' \<mapsto> (Ok, Text ''OK''),
                          ''Time'' \<mapsto> (Ok, Text ''ok''),
                          ''Camera Info'' \<mapsto> (Ok, Text ''ok''))\<rparr>)"
    using acc unfolding ex_orientation pos' dims by simp
  then show ?thesis
    using z proj by (simp del: One_nat_def)
qed

theorem end_to_end_example_witness:
  "\<exists>d'. updateCamera ex_context ex_display = (Inr (), d')
     \<and> bg_corners d' = screen_corners (Fin 1) (Fin 1)
     \<and> camera_projection d' (0, 2) = Fin 0
     \<and> camera_projection d' (1, 2) = Fin 0
     \<and> camera_position d' = Vector3 (Fin 0) (Fin 0) (Fin 0)"
proof -
  have 1: "current_caminfo ex_display = Some ex_info" "texture_image ex_display = Some ex_image"
    by (simp_all add: ex_display_def)
  have 2: "width ex_info = 640" "height ex_info = 480"
    by (simp_all add: ex_info_def)
  have 3: "map (P ex_info) [0..<12] = map Fin [500, 0, 320, 0, 0, 500, 240, 0, 0, 0, 1, 0]"
    by (simp add: ex_info_def upt_rec)
  have 4: "getSyncMode ex_context \<noteq> SyncExact \<or> getTime ex_context = stamp (header ex_image)"
    by (simp add: ex_context_def ex_image_def)
  have 5: "getTransform ex_context (frame_id (header ex_image)) (stamp (header ex_image))
      = (True, Vector3 (Fin 0) (Fin 0) (Fin 0), IDENTITY)"
    by (simp add: ex_context_def)
  have 6: "panel_width ex_display = 640" "panel_height ex_display = 480"
    by (simp_all add: ex_display_def)
  from end_to_end_example [OF 1 2 3 validateFloats_ex_info 4 5 6] show ?thesis
    by blast
qed




text \<open>
  C3, as stated, fails: the fixed rotation is about the X axis, the one the source calls
  "right", not about the forward axis Z of the sensor frame, and the pose orientation is
  multiplied by it on the right. For the pose orientation \<open>w = 0.6\<close>, \<open>y = 0.8\<close> the
  camera receives \<open>(0, 0.6, 0, -0.8)\<close>. The product with the half turn about Z is
  different on either side, and turns the Z axis to a different direction; the product
  with the half turn about X on the left is different as well.
\<close>

theorem forward_axis_counterexample:
  "getTransform turned_context (frame_id (header ex_image)) (stamp (header ex_image))
     = (True, Vector3 (Fin 1) (Fin 2) (Fin 3), Quaternion (Fin 0.6) (Fin 0) (Fin 0.8) (Fin 0))
   \<and> texture_image ex_display = Some ex_image
   \<and> returned (fst (updateCamera turned_context ex_display))
   \<and> camera_orientation (snd (updateCamera turned_context ex_display))
       = Quaternion (Fin 0) (Fin 0.6) (Fin 0) (Fin (- 0.8))
   \<and> qmul (FromAngleAxis (Degree 180) UNIT_Z) (Quaternion (Fin 0.6) (Fin 0) (Fin 0.8) (Fin 0))
       = Quaternion (Fin 0) (Fin (- 0.8)) (Fin 0) (Fin 0.6)
   \<and> camera_orientation (snd (updateCamera turned_context ex_display))
       \<noteq> qmul (FromAngleAxis (Degree 180) UNIT_Z) (Quaternion (Fin 0.6) (Fin 0) (Fin 0.8) (Fin 0))
   \<and> camera_orientation (snd (updateCamera turned_context ex_display))
       \<noteq> qmul (Quaternion (Fin 0.6) (Fin 0) (Fin 0.8) (Fin 0)) (FromAngleAxis (Degree 180) UNIT_Z)
   \<and> camera_orientation (snd (updateCamera turned_context ex_display))
       \<noteq> qmul (FromAngleAxis (Degree 180) UNIT_X) (Quaternion (Fin 0.6) (Fin 0) (Fin 0.8) (Fin 0))
   \<and> qrot (camera_orientation (snd (updateCamera turned_context ex_display))) UNIT_Z
       = Vector3 (Fin (- 0.96)) (Fin 0) (Fin 0.28)
   \<and> qrot (qmul (FromAngleAxis (Degree 180) UNIT_Z)
         (Quaternion (Fin 0.6) (Fin 0) (Fin 0.8) (Fin 0))) UNIT_Z
       = Vector3 (Fin (- 0.96)) (Fin 0) (Fin (- 0.28))"
proof -
  have "getTransform turned_context (frame_id (header ex_image)) (stamp (header ex_image))
     = (True, Vector3 (Fin 1) (Fin 2) (Fin 3), Quaternion (Fin 0.6) (Fin 0) (Fin 0.8) (Fin 0))"
    by (simp add: turned_context_def)
  moreover have "texture_image ex_display = Some ex_image"
    by (simp add: ex_display_def)
  ultimately show ?thesis
    unfolding turned_accept rot180x rot180z
    by (simp add: UNIT_Z_def)
qed

text \<open>
  C3, amended. In every call of \<open>updateCamera\<close> that returns true, the orientation given
  to the camera is the pose orientation multiplied on the right by the fixed rotation of
  180 degrees about the X axis, which keeps X and reverses Y and Z (from the Z-forward
  sensor frame to the Z-out rendering frame); the position given to the camera is the
  baseline translation computed with that same rotated orientation.
\<close>

theorem orientation_rotated_about_x:
  assumes "updateCamera c d = (Inr u, d')"
    and "current_caminfo d = Some info" and "texture_image d = Some img"
    and "getTransform c (frame_id (header img)) (stamp (header img)) = (found, position, o0)"
  shows "camera_orientation d' = qmul o0 (FromAngleAxis (Degree 180) UNIT_X)
     \<and> FromAngleAxis (Degree 180) UNIT_X = Quaternion (Fin 0) (Fin 1) (Fin 0) (Fin 0)
     \<and> qrot (FromAngleAxis (Degree 180) UNIT_X) UNIT_X = UNIT_X
     \<and> qrot (FromAngleAxis (Degree 180) UNIT_X) UNIT_Y = Vector3 (Fin 0) (Fin (- 1)) (Fin 0)
     \<and> qrot (FromAngleAxis (Degree 180) UNIT_X) UNIT_Z = Vector3 (Fin 0) (Fin 0) (Fin (- 1))
     \<and> camera_position d' = baseline_position info position (camera_orientation d')"
proof -
  from assms(1) obtain info' img' found' position' o0' zoom_x zoom_y where
    a: "current_caminfo d = Some info'" "texture_image d = Some img'"
      "getTransform c (frame_id (header img')) (stamp (header img')) = (found', position', o0')"
      "d' = d\<lparr>camera_position :=
               baseline_position info' position' (qmul o0' (FromAngleAxis (Degree 180) UNIT_X)),
             camera_orientation := qmul o0' (FromAngleAxis (Degree 180) UNIT_X),
             camera_custom_projection := True,
             camera_projection := projection_matrix info' (Fin (real (used_width info' d)))
               (Fin (real (used_height info' d))) zoom_x zoom_y,
             bg_corners := screen_corners zoom_x zoom_y,
             fg_corners := screen_corners zoom_x zoom_y,
             status := (status d)(''Camera Info'' \<mapsto> (Ok, Text ''OK''),
                          ''Time'' \<mapsto> (Ok, Text ''ok''),
                          ''Camera Info'' \<mapsto> (Ok, Text ''ok''))\<rparr>"
    by (rule updateCamera_Inr)
  from a(1,2,3) assms(2,3,4) have e: "info' = info" "position' = position" "o0' = o0"
    by simp_all
  have r: "qrot (Quaternion (Fin 0) (Fin 1) (Fin 0) (Fin 0)) UNIT_X = UNIT_X"
    "qrot (Quaternion (Fin 0) (Fin 1) (Fin 0) (Fin 0)) UNIT_Y = Vector3 (Fin 0) (Fin (- 1)) (Fin 0)"
    "qrot (Quaternion (Fin 0) (Fin 1) (Fin 0) (Fin 0)) UNIT_Z = Vector3 (Fin 0) (Fin 0) (Fin (- 1))"
    by (simp_all add: UNIT_X_def UNIT_Y_def UNIT_Z_def)
  have "camera_orientation d' = qmul o0 (FromAngleAxis (Degree 180) UNIT_X)"
    "camera_position d' = baseline_position info position (camera_orientation d')"
    by (simp_all add: a(4) e)
  with r show ?thesis by (simp add: rot180x)
qed

theorem orientation_rotated_about_x_witness:
  "camera_orientation (snd (updateCamera turned_context ex_display))
     = Quaternion (Fin 0) (Fin 0.6) (Fin 0) (Fin (- 0.8))
   \<and> camera_position (snd (updateCamera turned_context ex_display))
     = Vector3 (Fin 1) (Fin 2) (Fin 3)"
proof -
  have 1: "current_caminfo ex_display = Some ex_info" "texture_image ex_display = Some ex_image"
    by (simp_all add: ex_display_def)
  have 4: "getTransform turned_context (frame_id (header ex_image)) (stamp (header ex_image))
      = (True, Vector3 (Fin 1) (Fin 2) (Fin 3), Quaternion (Fin 0.6) (Fin 0) (Fin 0.8) (Fin 0))"
    by (simp add: turned_context_def)
  have acc: "updateCamera turned_context ex_display
      = (Inr (), snd (updateCamera turned_context ex_display))"
    by (simp add: turned_accept)
  from orientation_rotated_about_x [OF acc 1 4]
  have "camera_orientation (snd (updateCamera turned_context ex_display))
      = Quaternion (Fin 0) (Fin 0.6) (Fin 0) (Fin (- 0.8))
    \<and> camera_position (snd (updateCamera turned_context ex_display))
      = baseline_position ex_info (Vector3 (Fin 1) (Fin 2) (Fin 3))
          (camera_orientation (snd (updateCamera turned_context ex_display)))"
    by (simp only: turned_orientation)
  then show ?thesis
    by (simp add: baseline_position_def ex_info_def UNIT_X_def UNIT_Y_def fl_eval)
qed

text \<open>
  C4. A call of \<open>updateCamera\<close> that returns false, by whichever of its five early
  returns, leaves the camera's position, orientation and projection matrix and the
  corners of both screen rectangles as they were. A call that returns true has set
  all of them: the position to the pose position with the baseline offsets, the
  orientation to the rotated pose orientation, the custom projection matrix, and the
  corners of both rectangles to the zoom factors.
\<close>

theorem updateCamera_atomic:
  assumes "updateCamera c d = (r, d')"
  shows "(\<not> returned r \<longrightarrow>
            camera_position d' = camera_position d
          \<and> camera_orientation d' = camera_orientation d
          \<and> camera_custom_projection d' = camera_custom_projection d
          \<and> camera_projection d' = camera_projection d
          \<and> bg_corners d' = bg_corners d \<and> fg_corners d' = fg_corners d)
       \<and> (returned r \<longrightarrow>
            (\<exists>info img found position o0 zoom_x zoom_y.
                current_caminfo d = Some info \<and> texture_image d = Some img
              \<and> getTransform c (frame_id (header img)) (stamp (header img))
                   = (found, position, o0)
              \<and> camera_position d' = baseline_position info position
                   (qmul o0 (FromAngleAxis (Degree 180) UNIT_X))
              \<and> camera_orientation d' = qmul o0 (FromAngleAxis (Degree 180) UNIT_X)
              \<and> camera_custom_projection d'
              \<and> camera_projection d' = projection_matrix info
                   (Fin (real (used_width info d))) (Fin (real (used_height info d)))
                   zoom_x zoom_y
              \<and> bg_corners d' = screen_corners zoom_x zoom_y
              \<and> fg_corners d' = screen_corners zoom_x zoom_y))"
proof (cases c d rule: updateCamera_paths)
  case NoInput
  with assms show ?thesis by auto
next
  case (InvalidFloats info img)
  with assms show ?thesis by (auto simp: setStatus_def)
next
  case (TimeMismatch info img)
  with assms show ?thesis by (auto simp: setStatus_def)
next
  case (Malformed info img)
  with assms show ?thesis by (auto simp: setStatus_def)
next
  case (InvalidPosition info img found position o0)
  with assms show ?thesis by (auto simp: setStatus_def)
next
  case (Accept info img found position o0 zoom_x zoom_y)
  from assms Accept(10) have r: "r = Inr ()" and d': "d' = d\<lparr>camera_position :=
               baseline_position info position (qmul o0 (FromAngleAxis (Degree 180) UNIT_X)),
             camera_orientation := qmul o0 (FromAngleAxis (Degree 180) UNIT_X),
             camera_custom_projection := True,
             camera_projection := projection_matrix info (Fin (real (used_width info d)))
               (Fin (real (used_height info d))) zoom_x zoom_y,
             bg_corners := screen_corners zoom_x zoom_y,
             fg_corners := screen_corners zoom_x zoom_y,
             status := (status d)(''Camera Info'' \<mapsto> (Ok, Text ''OK''),
                          ''Time'' \<mapsto> (Ok, Text ''ok''),
                          ''Camera Info'' \<mapsto> (Ok, Text ''ok''))\<rparr>"
    by simp_all
  have "camera_position d' = baseline_position info position
                   (qmul o0 (FromAngleAxis (Degree 180) UNIT_X))
      \<and> camera_orientation d' = qmul o0 (FromAngleAxis (Degree 180) UNIT_X)
      \<and> camera_custom_projection d'
      \<and> camera_projection d' = projection_matrix info
                   (Fin (real (used_width info d))) (Fin (real (used_height info d)))
                   zoom_x zoom_y
      \<and> bg_corners d' = screen_corners zoom_x zoom_y
      \<and> fg_corners d' = screen_corners zoom_x zoom_y"
    by (simp add: d')
  with Accept(1,2,7) r show ?thesis by auto
qed

theorem updateCamera_atomic_witness:
  "\<not> returned (fst (updateCamera ex_context narrow_display))
   \<and> camera_position (snd (updateCamera ex_context narrow_display))
       = camera_position narrow_display
   \<and> camera_projection (snd (updateCamera ex_context narrow_display))
       = camera_projection narrow_display
   \<and> bg_corners (snd (updateCamera ex_context narrow_display)) = bg_corners narrow_display
   \<and> returned (fst (updateCamera ex_context ex_display))
   \<and> camera_custom_projection (snd (updateCamera ex_context ex_display))
   \<and> camera_orientation (snd (updateCamera ex_context ex_display))
       = Quaternion (Fin 0) (Fin 1) (Fin 0) (Fin 0)"
proof -
  have a: "fst (updateCamera ex_context narrow_display) = Inl Malformed"
    by (simp add: narrow_reject)
  have b: "fst (updateCamera ex_context ex_display) = Inr ()"
    by (simp add: ex_accept)
  have c: "getTransform ex_context f t = (True, Vector3 (Fin 0) (Fin 0) (Fin 0), IDENTITY)" for f t
    by (simp add: ex_context_def)
  from updateCamera_atomic [OF surjective_pairing [of "updateCamera ex_context narrow_display"]] a
  have 1: "camera_position (snd (updateCamera ex_context narrow_display))
       = camera_position narrow_display
   \<and> camera_projection (snd (updateCamera ex_context narrow_display))
       = camera_projection narrow_display
   \<and> bg_corners (snd (updateCamera ex_context narrow_display)) = bg_corners narrow_display"
    by simp
  from updateCamera_atomic [OF surjective_pairing [of "updateCamera ex_context ex_display"]] b
  have 2: "camera_custom_projection (snd (updateCamera ex_context ex_display))
   \<and> camera_orientation (snd (updateCamera ex_context ex_display))
       = Quaternion (Fin 0) (Fin 1) (Fin 0) (Fin 0)"
    by (auto simp: c ex_orientation)
  from a b 1 2 show ?thesis by simp
qed

text \<open>
  C5, as stated, fails: \<open>updateCamera\<close> also rejects a CameraInfo as malformed when only
  one of width and height is zero. With width 0, height 480 and a texture without
  size, the call returns false with the "malformed CameraInfo" error although the
  height is not zero.
\<close>

theorem malformed_one_dimension_counterexample:
  "fst (updateCamera ex_context narrow_display) = Inl Malformed
   \<and> \<not> returned (fst (updateCamera ex_context narrow_display))
   \<and> status (snd (updateCamera ex_context narrow_display)) ''Camera Info''
       = Some (Error, Text ''Could not determine width/height of image due to malformed CameraInfo (either width or height is 0)'')
   \<and> current_caminfo narrow_display = Some (ex_info\<lparr>width := 0\<rparr>)
   \<and> width (ex_info\<lparr>width := 0\<rparr>) = 0
   \<and> height (ex_info\<lparr>width := 0\<rparr>) = 480
   \<and> \<not> (width (ex_info\<lparr>width := 0\<rparr>) = 0 \<and> height (ex_info\<lparr>width := 0\<rparr>) = 0)"
proof -
  have "current_caminfo narrow_display = Some (ex_info\<lparr>width := 0\<rparr>)"
    by (simp add: narrow_display_def)
  moreover have "height (ex_info\<lparr>width := 0\<rparr>) = 480"
    by (simp add: ex_info_def)
  ultimately show ?thesis
    by (simp add: narrow_reject setStatus_def)
qed

text \<open>
  C5, amended. \<open>updateCamera\<close> takes the "malformed CameraInfo" return exactly when a
  CameraInfo and an image are present, all of \<open>D\<close>, \<open>K\<close>, \<open>R\<close>, \<open>P\<close> are finite, the
  time check passes, and the width or the height is still zero after the fallback to
  the texture's size. It takes the "invalid floating point values" return exactly
  when a CameraInfo and an image are present and some entry of \<open>D\<close>, \<open>K\<close>, \<open>R\<close> or \<open>P\<close>
  is not finite. Either way it returns false and sets an Error status on
  "Camera Info" with the respective text.
\<close>

theorem rejection_classes:
  "(fst (updateCamera c d) = Inl Malformed) =
      (\<exists>info img. current_caminfo d = Some info \<and> texture_image d = Some img
         \<and> validateFloats info
         \<and> (getSyncMode c \<noteq> SyncExact \<or> getTime c = stamp (header img))
         \<and> ((width info = 0 \<and> texture_width d = 0) \<or> (height info = 0 \<and> texture_height d = 0)))
   \<and> (fst (updateCamera c d) = Inl InvalidFloats) =
      (\<exists>info img. current_caminfo d = Some info \<and> texture_image d = Some img
         \<and> (NonFin \<in> set (D info) \<or> (\<exists>i<9. K info i = NonFin) \<or> (\<exists>i<9. R info i = NonFin)
              \<or> (\<exists>i<12. P info i = NonFin)))
   \<and> (fst (updateCamera c d) = Inl Malformed \<longrightarrow>
        \<not> returned (fst (updateCamera c d))
        \<and> snd (updateCamera c d) = setStatus Error ''Camera Info''
             (Text ''Could not determine width/height of image due to malformed CameraInfo (either width or height is 0)'') d)
   \<and> (fst (updateCamera c d) = Inl InvalidFloats \<longrightarrow>
        \<not> returned (fst (updateCamera c d))
        \<and> snd (updateCamera c d) = setStatus Error ''Camera Info''
             (Text ''Contains invalid floating point values (nans or infs)'') d)"
proof -
  have used: "(used_width info d = 0 \<or> used_height info d = 0) =
      ((width info = 0 \<and> texture_width d = 0) \<or> (height info = 0 \<and> texture_height d = 0))"
    for info
    by (auto simp: used_width_def used_height_def)
  show ?thesis
  proof (cases c d rule: updateCamera_paths)
    case NoInput
    then show ?thesis by auto
  next
    case (InvalidFloats info img)
    then show ?thesis by (auto simp: validateFloats_iff)
  next
    case (TimeMismatch info img)
    then show ?thesis by (auto simp: validateFloats_iff)
  next
    case (Malformed info img)
    then show ?thesis using used [of info] by (auto simp: validateFloats_iff)
  next
    case (InvalidPosition info img found position o0)
    then show ?thesis using used [of info] by (auto simp: validateFloats_iff)
  next
    case (Accept info img found position o0 zoom_x zoom_y)
    then show ?thesis using used [of info] by (auto simp: validateFloats_iff)
  qed
qed

theorem rejection_classes_witness:
  "fst (updateCamera ex_context narrow_display) = Inl Malformed
   \<and> snd (updateCamera ex_context narrow_display) = setStatus Error ''Camera Info''
        (Text ''Could not determine width/height of image due to malformed CameraInfo (either width or height is 0)'')
        narrow_display
   \<and> fst (updateCamera ex_context nan_display) = Inl InvalidFloats
   \<and> \<not> returned (fst (updateCamera ex_context nan_display))
   \<and> snd (updateCamera ex_context nan_display) = setStatus Error ''Camera Info''
        (Text ''Contains invalid floating point values (nans or infs)'') nan_display"
proof -
  have "\<exists>info img. current_caminfo narrow_display = Some info
         \<and> texture_image narrow_display = Some img
         \<and> validateFloats info
         \<and> (getSyncMode ex_context \<noteq> SyncExact \<or> getTime ex_context = stamp (header img))
         \<and> ((width info = 0 \<and> texture_width narrow_display = 0)
             \<or> (height info = 0 \<and> texture_height narrow_display = 0))"
    by (simp add: narrow_display_def ex_display_def validateFloats_narrow ex_context_def
        ex_image_def)
  with rejection_classes [of ex_context narrow_display]
  have 1: "fst (updateCamera ex_context narrow_display) = Inl Malformed
   \<and> snd (updateCamera ex_context narrow_display) = setStatus Error ''Camera Info''
        (Text ''Could not determine width/height of image due to malformed CameraInfo (either width or height is 0)'')
        narrow_display"
    by blast
  have "P (ex_info\<lparr>P := (P ex_info)(2 := NonFin)\<rparr>) 2 = NonFin"
    by simp
  then have "\<exists>i<12. P (ex_info\<lparr>P := (P ex_info)(2 := NonFin)\<rparr>) i = NonFin"
    by (intro exI [of _ 2]) simp
  then have "\<exists>info img. current_caminfo nan_display = Some info
         \<and> texture_image nan_display = Some img
         \<and> (NonFin \<in> set (D info) \<or> (\<exists>i<9. K info i = NonFin) \<or> (\<exists>i<9. R info i = NonFin)
              \<or> (\<exists>i<12. P info i = NonFin))"
    by (simp add: nan_display_def ex_display_def)
  with rejection_classes [of ex_context nan_display]
  have 2: "fst (updateCamera ex_context nan_display) = Inl InvalidFloats
   \<and> \<not> returned (fst (updateCamera ex_context nan_display))
   \<and> snd (updateCamera ex_context nan_display) = setStatus Error ''Camera Info''
        (Text ''Contains invalid floating point values (nans or infs)'') nan_display"
    by blast
  from 1 2 show ?thesis by blast
qed

text \<open>
  C6, as stated, fails: the time check is the third test of \<open>updateCamera\<close>, and a call
  that leaves at one of the first two never reaches it. In exact mode, with a
  synchronisation time one nanosecond after the image stamp, the camera whose \<open>P\<close> holds
  a NaN is refused for its floats: the call returns false, but the status set is an
  Error on "Camera Info", and "Time" has no status at all. The same call without a
  CameraInfo returns false and changes nothing.
\<close>

theorem time_check_unreached_counterexample:
  "getSyncMode late_context = SyncExact
   \<and> texture_image nan_display = Some ex_image
   \<and> getTime late_context \<noteq> stamp (header ex_image)
   \<and> fst (updateCamera late_context nan_display) = Inl InvalidFloats
   \<and> status (snd (updateCamera late_context nan_display)) ''Time'' = None
   \<and> status (snd (updateCamera late_context nan_display)) ''Camera Info''
       = Some (Error, Text ''Contains invalid floating point values (nans or infs)'')
   \<and> texture_image (ex_display\<lparr>current_caminfo := None\<rparr>) = Some ex_image
   \<and> updateCamera late_context (ex_display\<lparr>current_caminfo := None\<rparr>)
       = (Inl NoInput, ex_display\<lparr>current_caminfo := None\<rparr>)
   \<and> status (ex_display\<lparr>current_caminfo := None\<rparr>) ''Time'' = None"
proof -
  have 1: "getSyncMode late_context = SyncExact"
    "getTime late_context \<noteq> stamp (header ex_image)"
    by (simp_all add: late_context_def ex_context_def ex_image_def ex_time_def)
  have 2: "current_caminfo nan_display = Some (ex_info\<lparr>P := (P ex_info)(2 := NonFin)\<rparr>)"
    "texture_image nan_display = Some ex_image"
    "status nan_display ''Time'' = None"
    by (simp_all add: nan_display_def ex_display_def)
  have 3: "updateCamera late_context nan_display = (Inl InvalidFloats, setStatus Error ''Camera Info''
           (Text ''Contains invalid floating point values (nans or infs)'') nan_display)"
    by (rule updateCamera_InvalidFloats [OF 2(1,2) validateFloats_nan])
  have 4: "updateCamera late_context (ex_display\<lparr>current_caminfo := None\<rparr>)
       = (Inl NoInput, ex_display\<lparr>current_caminfo := None\<rparr>)"
    by (rule updateCamera_NoInput) simp
  have 5: "texture_image (ex_display\<lparr>current_caminfo := None\<rparr>) = Some ex_image"
    "status (ex_display\<lparr>current_caminfo := None\<rparr>) ''Time'' = None"
    by (simp_all add: ex_display_def)
  show ?thesis
    unfolding 3 4 using 1 2 5 by (simp add: setStatus_def)
qed

text \<open>
  C6, amended. For a call that reaches the time check (a CameraInfo and an image are
  present and the CameraInfo's numbers are finite): in exact mode with a synchronisation time
  different from the image stamp, \<open>updateCamera\<close> returns false and sets a Warn status
  on "Time", changing nothing else; in exact mode with equal times it goes on past the
  check. In exact mode with different times no call at all returns true. In any other
  mode no call, whatever its input, returns at the time check.
\<close>

theorem exact_sync_check:
  "(current_caminfo d = Some info \<and> texture_image d = Some img \<and> validateFloats info
      \<and> getSyncMode c = SyncExact \<and> getTime c \<noteq> stamp (header img) \<longrightarrow>
        updateCamera c d =
          (Inl TimeMismatch, d\<lparr>status := (status d)(''Time'' \<mapsto> (Warn, NoImageAtTimestamp (getTime c)))\<rparr>)
        \<and> \<not> returned (fst (updateCamera c d)))
   \<and> (current_caminfo d = Some info \<and> texture_image d = Some img \<and> validateFloats info
      \<and> getSyncMode c = SyncExact \<and> getTime c = stamp (header img) \<longrightarrow>
        fst (updateCamera c d) = Inl Malformed \<or> fst (updateCamera c d) = Inl InvalidPosition
        \<or> fst (updateCamera c d) = Inr ())
   \<and> (texture_image d = Some img \<and> getSyncMode c = SyncExact
      \<and> getTime c \<noteq> stamp (header img) \<longrightarrow> \<not> returned (fst (updateCamera c d)))
   \<and> (getSyncMode c \<noteq> SyncExact \<longrightarrow> fst (updateCamera c d) \<noteq> Inl TimeMismatch)"
proof (cases c d rule: updateCamera_paths)
  case NoInput
  then show ?thesis by auto
next
  case (InvalidFloats info img)
  then show ?thesis by auto
next
  case (TimeMismatch info img)
  then show ?thesis by (auto simp: setStatus_def)
next
  case (Malformed info img)
  then show ?thesis by auto
next
  case (InvalidPosition info img found position o0)
  then show ?thesis by auto
next
  case (Accept info img found position o0 zoom_x zoom_y)
  then show ?thesis by auto
qed

theorem exact_sync_check_witness:
  "fst (updateCamera (ex_context\<lparr>getTime := \<lparr>sec = 10, nsec = 501\<rparr>\<rparr>) ex_display) = Inl TimeMismatch
   \<and> status (snd (updateCamera (ex_context\<lparr>getTime := \<lparr>sec = 10, nsec = 501\<rparr>\<rparr>) ex_display)) ''Time''
       = Some (Warn, NoImageAtTimestamp \<lparr>sec = 10, nsec = 501\<rparr>)
   \<and> fst (updateCamera ex_context ex_display) = Inr ()
   \<and> fst (updateCamera (ex_context\<lparr>getTime := \<lparr>sec = 10, nsec = 501\<rparr>, getSyncMode := SyncApprox\<rparr>)
        ex_display) \<noteq> Inl TimeMismatch"
proof -
  have in_: "current_caminfo ex_display = Some ex_info" "texture_image ex_display = Some ex_image"
    by (simp_all add: ex_display_def)
  have st: "stamp (header ex_image) = \<lparr>sec = 10, nsec = 500\<rparr>"
    by (simp add: ex_image_def ex_time_def)
  have 1: "updateCamera (ex_context\<lparr>getTime := \<lparr>sec = 10, nsec = 501\<rparr>\<rparr>) ex_display =
      (Inl TimeMismatch, ex_display\<lparr>status := (status ex_display)
         (''Time'' \<mapsto> (Warn, NoImageAtTimestamp \<lparr>sec = 10, nsec = 501\<rparr>))\<rparr>)"
    using exact_sync_check [of ex_display ex_info ex_image
        "ex_context\<lparr>getTime := \<lparr>sec = 10, nsec = 501\<rparr>\<rparr>"] in_ validateFloats_ex_info st
    by (simp add: ex_context_def)
  have 2: "fst (updateCamera ex_context ex_display) = Inr ()"
    using exact_sync_check [of ex_display ex_info ex_image ex_context] ex_accept
    by simp
  have 3: "fst (updateCamera (ex_context\<lparr>getTime := \<lparr>sec = 10, nsec = 501\<rparr>,
        getSyncMode := SyncApprox\<rparr>) ex_display) \<noteq> Inl TimeMismatch"
    using exact_sync_check [of ex_display ex_info ex_image
        "ex_context\<lparr>getTime := \<lparr>sec = 10, nsec = 501\<rparr>, getSyncMode := SyncApprox\<rparr>"]
    by simp
  from 1 2 3 show ?thesis by simp
qed

text \<open>
  C7, as stated, fails: \<open>updateCamera\<close> does not look at the result of the pose lookup.
  With a frame manager whose lookup fails, the call returns true, moves the camera to
  the position that the lookup left behind, and sets no Warn status: the only status
  entries afterwards are Ok.
\<close>

theorem failed_lookup_counterexample:
  "fst (getTransform lost_context (frame_id (header ex_image)) (stamp (header ex_image))) = False
   \<and> texture_image ex_display = Some ex_image
   \<and> fst (updateCamera lost_context ex_display) = Inr ()
   \<and> returned (fst (updateCamera lost_context ex_display))
   \<and> camera_position (snd (updateCamera lost_context ex_display))
       = Vector3 (Fin 9999999) (Fin 9999999) (Fin 9999999)
   \<and> camera_position ex_display = Vector3 (Fin 999999) (Fin 999999) (Fin 999999)
   \<and> camera_position (snd (updateCamera lost_context ex_display)) \<noteq> camera_position ex_display
   \<and> status (snd (updateCamera lost_context ex_display))
       = [''Time'' \<mapsto> (Ok, Text ''ok''), ''Camera Info'' \<mapsto> (Ok, Text ''ok'')]"
proof -
  have 1: "current_caminfo ex_display = Some ex_info" "texture_image ex_display = Some ex_image"
    by (simp_all add: ex_display_def)
  have 2: "getSyncMode lost_context \<noteq> SyncExact \<or> getTime lost_context = stamp (header ex_image)"
    by (simp add: lost_context_def ex_context_def ex_image_def)
  have 3: "used_width ex_info ex_display \<noteq> 0" "used_height ex_info ex_display \<noteq> 0"
    by (simp_all add: used_width_def used_height_def ex_info_def)
  have 4: "getTransform lost_context (frame_id (header ex_image)) (stamp (header ex_image))
      = (False, Vector3 (Fin 9999999) (Fin 9999999) (Fin 9999999), IDENTITY)"
    by (simp add: lost_context_def)
  have 6: "validateFloats_vec (baseline_position ex_info
      (Vector3 (Fin 9999999) (Fin 9999999) (Fin 9999999))
      (qmul IDENTITY (FromAngleAxis (Degree 180) UNIT_X)))"
    by (simp add: ex_orientation ex_baseline_far)
  have 7: "zoom_factors (Fin (real (used_width ex_info ex_display)))
      (Fin (real (used_height ex_info ex_display)))
      (P ex_info 0) (P ex_info 5) (Fin (real_of_int (panel_width ex_display)))
      (Fin (real_of_int (panel_height ex_display))) = (Fin 1, Fin 1)"
    using ex_zoom by (simp add: used_width_def used_height_def ex_info_def ex_display_def)
  have 9: "status ex_display = Map.empty" "camera_position ex_display
      = Vector3 (Fin 999999) (Fin 999999) (Fin 999999)"
    by (simp_all add: ex_display_def)
  show ?thesis
    using updateCamera_accept [OF 1 validateFloats_ex_info 2 3 4 6 7]
    by (simp add: 1 4 9 ex_orientation ex_baseline_far)
qed

text \<open>
  C7, amended. The boolean result of the pose lookup has no effect on \<open>updateCamera\<close>:
  with the same position and orientation in the lookup's output parameters, a lookup
  that reports failure and one that reports success give the same return value, the
  same camera and the same status entries. No status is set for a failed lookup, and
  the resolve goes on with the values the lookup left.
\<close>

theorem lookup_result_ignored:
  "updateCamera (c\<lparr>getTransform := (\<lambda>frame t. (b, snd (getTransform c frame t)))\<rparr>) d
     = updateCamera c d"
proof (cases "current_caminfo d")
  case None
  then show ?thesis by (simp add: updateCamera_def)
next
  case (Some info)
  show ?thesis
  proof (cases "texture_image d")
    case None
    with Some show ?thesis by (simp add: updateCamera_def)
  next
    case (Some img)
    obtain found position o0 where
      tf: "getTransform c (frame_id (header img)) (stamp (header img)) = (found, position, o0)"
      by (cases "getTransform c (frame_id (header img)) (stamp (header img))") auto
    from \<open>current_caminfo d = Some info\<close> Some tf show ?thesis
      by (simp add: updateCamera_def Let_def)
  qed
qed

theorem lookup_result_ignored_witness:
  "updateCamera lost_context ex_display = updateCamera found_context ex_display"
proof -
  have "lost_context\<lparr>getTransform :=
      (\<lambda>frame t. (True, snd (getTransform lost_context frame t)))\<rparr> = found_context"
    by (simp add: lost_context_def found_context_def)
  with lookup_result_ignored [where c = lost_context and b = True and d = ex_display] show ?thesis by simp
qed

text \<open>
  C8. \<open>preRenderTargetUpdate\<close> makes the background node visible exactly when
  \<open>caminfo_ok\<close> holds (the last \<open>updateCamera\<close> returned true) and the rendering
  property is "background" or "background and overlay", and the overlay node visible
  exactly when \<open>caminfo_ok\<close> holds and the property is "overlay" or "background and
  overlay". \<open>postRenderTargetUpdate\<close> first hides both nodes, whatever the state, and
  then publishes the frame; the publishing does not touch the nodes, so after the
  post-listener, and after a whole pass, both nodes are invisible.
\<close>

theorem render_pass_bracketing:
  "bg_visible (preRenderTargetUpdate d) =
     (caminfo_ok d \<and> (image_position_property d = BACKGROUND \<or> image_position_property d = BOTH))
   \<and> fg_visible (preRenderTargetUpdate d) =
     (caminfo_ok d \<and> (image_position_property d = OVERLAY \<or> image_position_property d = BOTH))
   \<and> postRenderTargetUpdate c d =
       (let hidden = d\<lparr>bg_visible := False, fg_visible := False\<rparr>
        in hidden\<lparr>video_publisher :=
             fst (publishFrame (now c) (render_window hidden) (video_publisher hidden))\<rparr>)
   \<and> \<not> bg_visible (postRenderTargetUpdate c d) \<and> \<not> fg_visible (postRenderTargetUpdate c d)
   \<and> \<not> bg_visible (render_pass c d) \<and> \<not> fg_visible (render_pass c d)"
  by (simp add: preRenderTargetUpdate_def postRenderTargetUpdate_def render_pass_def Let_def)

theorem render_pass_bracketing_witness:
  "bg_visible (preRenderTargetUpdate ex_display) \<and> fg_visible (preRenderTargetUpdate ex_display)
   \<and> \<not> bg_visible (preRenderTargetUpdate (ex_display\<lparr>image_position_property := OVERLAY\<rparr>))
   \<and> \<not> fg_visible (preRenderTargetUpdate (ex_display\<lparr>caminfo_ok := False\<rparr>))
   \<and> \<not> bg_visible (render_pass ex_context ex_display)
   \<and> \<not> fg_visible (render_pass ex_context ex_display)"
  using render_pass_bracketing [of ex_display ex_context]
    render_pass_bracketing [of "ex_display\<lparr>image_position_property := OVERLAY\<rparr>" ex_context]
    render_pass_bracketing [of "ex_display\<lparr>caminfo_ok := False\<rparr>" ex_context]
  by (simp add: ex_display_def BOTH_def OVERLAY_def BACKGROUND_def)

text \<open>
  C9, as stated, fails, in two ways. A window of 65537 by 65536 one-byte elements that
  is not resized at all: the 32-bit \<open>datasize\<close> wraps to 65536, the buffer has 68812
  bytes, and the pixel box handed to the read-back spans 65537 * 65536 bytes. And a
  640 by 480 window of three-byte elements that has grown to 1280 by 960 when it is
  read back: the buffer has the 967680 bytes computed from the queried size, fewer
  than the 3686400 bytes of the window at that moment. The margin of a twentieth
  covers neither.
\<close>

theorem capture_buffer_counterexample:
  "snd (publishFrame (now ex_context) huge_window (video_publisher ex_display))
     = Some \<lparr>buffer_bytes = 68812, box_width = 65537, box_height = 65536, box_elem_bytes = 1,
         window_width = 65537, window_height = 65536\<rparr>
   \<and> (68812::nat) < 65537 * 65536 * 1
   \<and> snd (publishFrame (now ex_context) resized_window (video_publisher ex_display))
     = Some \<lparr>buffer_bytes = 967680, box_width = 640, box_height = 480, box_elem_bytes = 3,
         window_width = 1280, window_height = 960\<rparr>
   \<and> (967680::nat) < 1280 * 960 * 3"
  by (simp add: publishFrame_def Let_def huge_window_def resized_window_def ex_display_def
      alloc_bytes_div datasize_of_def)

text \<open>
  C9, amended. Every capture (a call of \<open>publishFrame\<close> on an advertised publisher)
  requests a buffer of \<open>datasize\<close> bytes with the 1.05 margin, cut to a whole number,
  which is at least \<open>datasize\<close>, the number of bytes copied into the message. Width and
  height are read from the window once, at the size query, and the pixel box handed to
  the read-back carries those values. Whenever the byte count
  \<open>width * height * bytesPerPixel\<close> of the queried size fits 32 bits, the buffer is
  that count times 21/20, rounded down, hence at least that count, whatever the size
  of the window is at the read-back; and it is at least the byte count of the window
  as it is at the read-back exactly when 20 times that count is at most 21 times the
  queried count, as it is when no resize came in between.
\<close>

theorem capture_buffer_margin:
  assumes "pub_topic vp \<noteq> []"
  shows "\<exists>vp' cap msg. publishFrame t win vp = (vp', Some cap)
     \<and> sent vp' = sent vp @ [msg]
     \<and> box_width cap = rw_width win \<and> box_height cap = rw_height win
     \<and> box_elem_bytes cap = elem_bytes win
     \<and> window_width cap = copy_width win \<and> window_height cap = copy_height win
     \<and> data_size msg = unat (datasize_of (rw_width win) (rw_height win) (elem_bytes win))
     \<and> data_size msg \<le> buffer_bytes cap
     \<and> buffer_bytes cap = (data_size msg * 21) div 20
     \<and> (unat (rw_width win) * unat (rw_height win) * unat (elem_bytes win) < 2 ^ 32 \<longrightarrow>
          buffer_bytes cap =
              (unat (rw_width win) * unat (rw_height win) * unat (elem_bytes win) * 21) div 20
          \<and> unat (box_width cap) * unat (box_height cap) * unat (box_elem_bytes cap)
              \<le> buffer_bytes cap
          \<and> ((unat (window_width cap) * unat (window_height cap) * unat (box_elem_bytes cap)
                \<le> buffer_bytes cap)
              = (20 * (unat (copy_width win) * unat (copy_height win) * unat (elem_bytes win))
                \<le> 21 * (unat (rw_width win) * unat (rw_height win) * unat (elem_bytes win))))
          \<and> (copy_width win = rw_width win \<and> copy_height win = rw_height win \<longrightarrow>
                unat (window_width cap) * unat (window_height cap) * unat (box_elem_bytes cap)
                  \<le> buffer_bytes cap))"
proof -
  define datasize where "datasize = datasize_of (rw_width win) (rw_height win) (elem_bytes win)"
  define msg where "msg = \<lparr>header = \<lparr>seq = image_id vp, stamp = t, frame_id = []\<rparr>,
      img_height = rw_height win, img_width = rw_width win, encoding = RGB8,
      step = elem_bytes win * rw_width win, data_size = unat datasize\<rparr>"
  define cap where "cap = \<lparr>buffer_bytes = alloc_bytes datasize,
      box_width = rw_width win, box_height = rw_height win, box_elem_bytes = elem_bytes win,
      window_width = copy_width win, window_height = copy_height win\<rparr>"
  define queried where
    "queried = unat (rw_width win) * unat (rw_height win) * unat (elem_bytes win)"
  define at_copy where
    "at_copy = unat (copy_width win) * unat (copy_height win) * unat (elem_bytes win)"
  have run: "publishFrame t win vp
      = (vp\<lparr>image_id := image_id vp + 1, sent := sent vp @ [msg]\<rparr>, Some cap)"
    using assms by (simp add: publishFrame_def Let_def msg_def cap_def datasize_def)
  have size: "data_size msg = unat datasize" "buffer_bytes cap = (data_size msg * 21) div 20"
    by (simp_all add: msg_def cap_def alloc_bytes_div)
  have fits: "unat datasize = queried" if "queried < 2 ^ 32"
    using that unfolding datasize_def queried_def by (rule unat_datasize_of)
  have floor_le: "(m \<le> (n * 21) div 20) = (20 * m \<le> 21 * n)" for m n :: nat
    by (simp add: less_eq_div_iff_mult_less_eq mult.commute)
  have same: "at_copy = queried" if "copy_width win = rw_width win \<and> copy_height win = rw_height win"
    using that by (simp add: at_copy_def queried_def)
  have basic: "sent (vp\<lparr>image_id := image_id vp + 1, sent := sent vp @ [msg]\<rparr>) = sent vp @ [msg]"
    "box_width cap = rw_width win" "box_height cap = rw_height win"
    "box_elem_bytes cap = elem_bytes win"
    "window_width cap = copy_width win" "window_height cap = copy_height win"
    "data_size msg \<le> buffer_bytes cap"
    by (simp_all add: cap_def alloc_bytes_div size(1) margin_covers)
  have bound: "queried < 2 ^ 32 \<longrightarrow>
          buffer_bytes cap = (queried * 21) div 20
          \<and> queried \<le> buffer_bytes cap
          \<and> ((at_copy \<le> buffer_bytes cap) = (20 * at_copy \<le> 21 * queried))
          \<and> (copy_width win = rw_width win \<and> copy_height win = rw_height win \<longrightarrow>
                at_copy \<le> buffer_bytes cap)"
    using fits same by (simp add: cap_def alloc_bytes_div margin_covers floor_le)
  from bound have "unat (rw_width win) * unat (rw_height win) * unat (elem_bytes win) < 2 ^ 32 \<longrightarrow>
          buffer_bytes cap =
              (unat (rw_width win) * unat (rw_height win) * unat (elem_bytes win) * 21) div 20
          \<and> unat (box_width cap) * unat (box_height cap) * unat (box_elem_bytes cap)
              \<le> buffer_bytes cap
          \<and> ((unat (window_width cap) * unat (window_height cap) * unat (box_elem_bytes cap)
                \<le> buffer_bytes cap)
              = (20 * (unat (copy_width win) * unat (copy_height win) * unat (elem_bytes win))
                \<le> 21 * (unat (rw_width win) * unat (rw_height win) * unat (elem_bytes win))))
          \<and> (copy_width win = rw_width win \<and> copy_height win = rw_height win \<longrightarrow>
                unat (window_width cap) * unat (window_height cap) * unat (box_elem_bytes cap)
                  \<le> buffer_bytes cap)"
    unfolding queried_def at_copy_def basic(2-6) .
  with basic show ?thesis
    using run size unfolding datasize_def by blast
qed

theorem capture_buffer_margin_witness:
  "\<exists>vp' cap. publishFrame (now ex_context) (render_window ex_display) (video_publisher ex_display)
       = (vp', Some cap)
     \<and> box_width cap = 640 \<and> box_height cap = 480 \<and> box_elem_bytes cap = 3
     \<and> window_width cap = 640 \<and> window_height cap = 480
     \<and> buffer_bytes cap = 967680
     \<and> unat (window_width cap) * unat (window_height cap) * unat (box_elem_bytes cap)
         \<le> buffer_bytes cap"
proof -
  have 1: "pub_topic (video_publisher ex_display) \<noteq> []"
    by (simp add: ex_display_def)
  have 2: "unat (rw_width (render_window ex_display)) * unat (rw_height (render_window ex_display))
      * unat (elem_bytes (render_window ex_display)) = 921600"
    by (simp add: ex_display_def)
  have 3: "rw_width (render_window ex_display) = 640" "rw_height (render_window ex_display) = 480"
    "elem_bytes (render_window ex_display) = 3"
    "copy_width (render_window ex_display) = 640" "copy_height (render_window ex_display) = 480"
    by (simp_all add: ex_display_def)
  from capture_buffer_margin [OF 1, of "now ex_context" "render_window ex_display"]
  obtain vp' cap where
    a: "publishFrame (now ex_context) (render_window ex_display) (video_publisher ex_display)
          = (vp', Some cap)"
    and b: "box_width cap = rw_width (render_window ex_display)"
      "box_height cap = rw_height (render_window ex_display)"
      "box_elem_bytes cap = elem_bytes (render_window ex_display)"
      "window_width cap = copy_width (render_window ex_display)"
      "window_height cap = copy_height (render_window ex_display)"
    and c: "unat (rw_width (render_window ex_display)) * unat (rw_height (render_window ex_display))
          * unat (elem_bytes (render_window ex_display)) < 2 ^ 32 \<longrightarrow>
          buffer_bytes cap =
              (unat (rw_width (render_window ex_display))
               * unat (rw_height (render_window ex_display))
               * unat (elem_bytes (render_window ex_display)) * 21) div 20
          \<and> (copy_width (render_window ex_display) = rw_width (render_window ex_display)
               \<and> copy_height (render_window ex_display) = rw_height (render_window ex_display) \<longrightarrow>
                unat (window_width cap) * unat (window_height cap) * unat (box_elem_bytes cap)
                  \<le> buffer_bytes cap)"
    by blast
  from c have "buffer_bytes cap = 967680
      \<and> unat (window_width cap) * unat (window_height cap) * unat (box_elem_bytes cap)
         \<le> buffer_bytes cap"
    unfolding 2 unfolding 3 by simp
  with a b show ?thesis unfolding 3 by blast
qed

text \<open>
  C10. Every call of \<open>subscribe\<close> that gets past its guard (the display is enabled and
  the image topic is not empty) advertises the video stream under the name
  "rviz_out", whether or not the CameraInfo subscription throws; the name is a
  literal, so it is the same for every state of the display.
\<close>

theorem subscribe_advertises_rviz_out:
  assumes "isEnabled d" and "topic_property d \<noteq> []"
  shows "pub_topic (video_publisher (subscribe e d)) = ''rviz_out''"
  using assms by (simp add: subscribe_def advertise_def Let_def setStatus_def split: option.splits)

theorem subscribe_advertises_rviz_out_witness:
  "isEnabled ex_display \<and> topic_property ex_display \<noteq> []
   \<and> pub_topic (video_publisher (subscribe None ex_display)) = ''rviz_out''
   \<and> pub_topic (video_publisher (subscribe (Some ''no master'')
        (ex_display\<lparr>topic_property := ''stereo/left/image_rect''\<rparr>))) = ''rviz_out''"
  using subscribe_advertises_rviz_out [of ex_display None]
    subscribe_advertises_rviz_out [of "ex_display\<lparr>topic_property := ''stereo/left/image_rect''\<rparr>" "Some ''no master''"]
  by (simp add: ex_display_def)

end
